theory Spec2Isabelle
  imports Main "HOL-Library.Word" "HOL-Library.Sublist"
begin

section \<open>Messages: \<open>service.DIDCommMsgMap\<close>\<close>

text \<open>
  A DIDComm message is a Go \<open>map[string]interface{}\<close> decoded from JSON. The values
  are JSON values; a nested object (the \<open>~thread\<close> decorator, the metadata) is an
  association list read with \<open>map_of\<close>. The message itself is a map, updated in place
  by the Messenger; the model returns the updated map. A \<open>nil\<close> map, on which the
  first assignment panics, is not a message of the model.
\<close>

datatype jvalue =
    JNull
  | JBool bool
  | JNum int
  | JStr string
  | JArr "jvalue list"
  | JMap "(string \<times> jvalue) list"

type_synonym msg = "string \<rightharpoonup> jvalue"

abbreviation jsonID :: string where "jsonID \<equiv> ''@id''"
abbreviation jsonThread :: string where "jsonThread \<equiv> ''~thread''"
abbreviation jsonThreadID :: string where "jsonThreadID \<equiv> ''thid''"
abbreviation jsonParentThreadID :: string where "jsonParentThreadID \<equiv> ''pthid''"
abbreviation jsonMetadata :: string where "jsonMetadata \<equiv> ''_internal_metadata''"

text \<open>\<open>fmt.Errorf("...: %w", err)\<close> wraps an error; \<open>errors.Is\<close> walks the chain.\<close>

datatype error =
    ErrDataNotFound
  | ErrInvalidMessage
  | ErrThreadIDNotFound
  | ErrMsg string
  | Wrap string error

fun errorsIs :: "error \<Rightarrow> error \<Rightarrow> bool" where
  "errorsIs (Wrap t e) target = (Wrap t e = target \<or> errorsIs e target)"
| "errorsIs e target = (e = target)"

text \<open>
  Modelled from the spec: the accessors of \<open>service.DIDCommMsgMap\<close>
  (\<open>ID\<close>, \<open>ThreadID\<close>, \<open>ParentThreadID\<close>, \<open>Metadata\<close>), whose package is not among the
  sources. The wire format has \<open>@id\<close> (a string) and an optional
  \<open>~thread = {thid, pthid?}\<close>; the thread id of a message is \<open>msg.thread_id || msg.id\<close>
  (the Messenger's own comment: even if the \<open>~thread\<close> decorator is absent the message
  id is returned as the thread id); metadata sits under \<open>_internal_metadata\<close>.
  A missing key, a \<open>null\<close> and a value of another type all read as the empty string
  (or as no metadata).
\<close>

definition msgID :: "msg \<Rightarrow> string" where
  "msgID m = (case m jsonID of Some (JStr s) \<Rightarrow> s | _ \<Rightarrow> '''')"

definition msgThread :: "msg \<Rightarrow> string \<Rightarrow> string" where
  "msgThread m k =
     (case m jsonThread of
        Some (JMap t) \<Rightarrow> (case map_of t k of Some (JStr s) \<Rightarrow> s | _ \<Rightarrow> '''')
      | _ \<Rightarrow> '''')"

definition msgParentThreadID :: "msg \<Rightarrow> string" where
  "msgParentThreadID m = msgThread m jsonParentThreadID"

definition msgThreadID :: "msg \<Rightarrow> error + string" where
  "msgThreadID m =
     (let thid = msgThread m jsonThreadID; i = msgID m in
      if thid \<noteq> '''' \<and> i = '''' then Inl ErrInvalidMessage
      else if thid \<noteq> '''' then Inr thid
      else if i \<noteq> '''' then Inr i
      else Inl ErrThreadIDNotFound)"

definition msgMetadata :: "msg \<Rightarrow> (string \<times> jvalue) list" where
  "msgMetadata m = (case m jsonMetadata of Some (JMap md) \<Rightarrow> md | _ \<Rightarrow> [])"

section \<open>The Messenger's state\<close>

text \<open>The \<open>record\<close> struct of the Messenger, as stored under a message id or a metadata key.\<close>

record msg_record =
  MyDID :: string
  TheirDID :: string
  ThreadID :: string
  ParentThreadID :: string
  Metadata :: "(string \<times> jvalue) list"

text \<open>\<open>service.NestedReplyOpts\<close>, with the four fields the Messenger reads and fills.\<close>

record NestedReplyOpts =
  opt_ThreadID :: string
  opt_TheirDID :: string
  opt_MyDID :: string
  opt_MsgID :: string

text \<open>\<open>service.Destination\<close>: the Messenger only passes it on.\<close>

record Destination =
  ServiceEndpoint :: string
  RecipientKeys :: "string list"
  RoutingKeys :: "string list"

text \<open>What the outbound dispatcher was handed, call by call.\<close>

datatype dispatched =
    SendToDID msg string string
  | SendTo msg string "Destination option"

text \<open>
  The state a Messenger operation runs in: the contents of the store
  \<open>messenger_store\<close>, the errors the store and the dispatcher answer with during the
  operation (\<open>None\<close>: they succeed), the calls made to the dispatcher so far, and the
  random bytes that successive calls of \<open>uuid.New\<close> read.

  The store keeps the JSON encoding of a \<open>record\<close>; the model keeps the record
  itself, taking \<open>json.Unmarshal\<close> after \<open>json.Marshal\<close> as the identity on records.
  With \<open>omitempty\<close> an empty metadata map is not written, so it reads back as \<open>nil\<close>:
  the empty list stands for both.
\<close>

record state =
  store :: "string \<rightharpoonup> msg_record"
  get_err :: "error option"
  put_err :: "error option"
  send_err :: "error option"
  calls :: "dispatched list"
  rnd :: "nat \<Rightarrow> 8 word list"
  drawn :: nat

text \<open>
  Modelled from the spec: the \<open>Store\<close> capability,
  \<open>get(key) \<rightarrow> bytes | ErrDataNotFound\<close> and \<open>put(key, bytes)\<close>, and the outbound
  dispatcher's \<open>SendToDID\<close> and \<open>Send\<close>; both are interfaces whose implementations
  are not among the sources. A \<open>put\<close> that fails leaves the store as it was.
\<close>

definition store_Get :: "state \<Rightarrow> string \<Rightarrow> error + msg_record" where
  "store_Get s k =
     (case get_err s of
        Some e \<Rightarrow> Inl e
      | None \<Rightarrow> (case store s k of None \<Rightarrow> Inl ErrDataNotFound | Some r \<Rightarrow> Inr r))"

definition store_Put :: "string \<Rightarrow> msg_record \<Rightarrow> state \<Rightarrow> error option \<times> state" where
  "store_Put k r s =
     (case put_err s of
        Some e \<Rightarrow> (Some e, s)
      | None \<Rightarrow> (None, s\<lparr>store := (store s)(k \<mapsto> r)\<rparr>))"

definition dispatcher_SendToDID :: "msg \<Rightarrow> string \<Rightarrow> string \<Rightarrow> state \<Rightarrow> error option \<times> state" where
  "dispatcher_SendToDID m myDID theirDID s =
     (send_err s, s\<lparr>calls := calls s @ [SendToDID m myDID theirDID]\<rparr>)"

definition dispatcher_Send :: "msg \<Rightarrow> string \<Rightarrow> Destination option \<Rightarrow> state \<Rightarrow> error option \<times> state" where
  "dispatcher_Send m sender destination s =
     (send_err s, s\<lparr>calls := calls s @ [SendTo m sender destination]\<rparr>)"

subsection \<open>\<open>uuid.New().String()\<close>\<close>

text \<open>
  The library call reads 16 random bytes, sets the version and variant bits and prints
  the bytes in hexadecimal, in groups of 4, 2, 2, 2 and 6 bytes separated by hyphens.
  The UUID of the model is the one the random bytes give; that it differs from every
  earlier one is a matter of chance. A random source that fails, on which \<open>uuid.New\<close>
  panics, is not modelled.
\<close>

definition hexdigit :: "nat \<Rightarrow> char" where
  "hexdigit n = ''0123456789abcdef'' ! (n mod 16)"

definition hexEncode :: "8 word list \<Rightarrow> string" where
  "hexEncode bs = concat (map (\<lambda>b. [hexdigit (unat b div 16), hexdigit (unat b mod 16)]) bs)"

definition uuid_New :: "8 word list \<Rightarrow> 8 word list" where
  "uuid_New bs =
     (let u = take 16 bs;
          u = (if 6 < length u then u[6 := or (and (u ! 6) 0x0f) 0x40] else u);
          u = (if 8 < length u then u[8 := or (and (u ! 8) 0x3f) 0x80] else u)
      in u)"

definition uuid_String :: "8 word list \<Rightarrow> string" where
  "uuid_String u =
     hexEncode (take 4 u) @ ''-'' @ hexEncode (take 2 (drop 4 u)) @ ''-'' @
     hexEncode (take 2 (drop 6 u)) @ ''-'' @ hexEncode (take 2 (drop 8 u)) @ ''-'' @
     hexEncode (take 6 (drop 10 u))"

definition next_uuid :: "state \<Rightarrow> string" where
  "next_uuid s = uuid_String (uuid_New (rnd s (drawn s)))"

section \<open>The Messenger\<close>

definition getRecord :: "string \<Rightarrow> state \<Rightarrow> error + msg_record" where
  "getRecord msgID' s =
     (case store_Get s msgID' of
        Inl e \<Rightarrow> Inl (Wrap ''store get'' e)
      | Inr r \<Rightarrow> Inr r)"

definition saveRecord :: "string \<Rightarrow> msg_record \<Rightarrow> state \<Rightarrow> error option \<times> state" where
  "saveRecord msgID' r s = store_Put msgID' r s"

definition metadataKey :: "string \<Rightarrow> string" where
  "metadataKey thID = ''metadata_'' @ thID"

definition emptyRecord :: msg_record where
  "emptyRecord = \<lparr>MyDID = '''', TheirDID = '''', ThreadID = '''', ParentThreadID = '''', Metadata = []\<rparr>"

definition saveMetadata :: "msg \<Rightarrow> state \<Rightarrow> error option \<times> state" where
  "saveMetadata m s =
     (let metadata = msgMetadata m in
      if length metadata = 0 then (None, s)
      else (case msgThreadID m of
              Inl e \<Rightarrow> (Some (Wrap ''threadID'' e), s)
            | Inr thID \<Rightarrow> saveRecord (metadataKey thID) (emptyRecord\<lparr>Metadata := metadata\<rparr>) s))"

definition populateMetadata :: "string \<Rightarrow> msg \<Rightarrow> state \<Rightarrow> error + msg" where
  "populateMetadata thID m s =
     (case getRecord (metadataKey thID) s of
        Inl e \<Rightarrow> (if errorsIs e ErrDataNotFound then Inr m else Inl (Wrap ''get record'' e))
      | Inr r \<Rightarrow> (if Metadata r = [] then Inr m else Inr (m(jsonMetadata \<mapsto> JMap (Metadata r)))))"

definition fillIfMissing :: "msg \<Rightarrow> state \<Rightarrow> msg \<times> state" where
  "fillIfMissing m s =
     (if msgID m = '''' then (m(jsonID \<mapsto> JStr (next_uuid s)), s\<lparr>drawn := Suc (drawn s)\<rparr>)
      else (m, s))"

text \<open>
  Every operation returns its error (\<open>None\<close>: success), the caller's message as the
  operation leaves it (the map is shared with the caller), and the new state;
  \<open>ReplyToNested\<close> also the options, which it fills through the pointer.
\<close>

record result =
  res_err :: "error option"
  res_msg :: msg
  res_state :: state

record nested_result = result +
  res_opts :: NestedReplyOpts

definition HandleInbound :: "msg \<Rightarrow> string \<Rightarrow> string \<Rightarrow> state \<Rightarrow> result" where
  "HandleInbound m myDID theirDID s =
     (if msgID m = ''''
      then \<lparr>res_err = Some (ErrMsg ''message-id is absent and can't be processed''),
            res_msg = m, res_state = s\<rparr>
      else (case msgThreadID m of
              Inl e \<Rightarrow> \<lparr>res_err = Some (Wrap ''threadID'' e), res_msg = m, res_state = s\<rparr>
            | Inr thID \<Rightarrow>
                (case populateMetadata thID m s of
                   Inl e \<Rightarrow> \<lparr>res_err = Some (Wrap ''with metadata'' e), res_msg = m, res_state = s\<rparr>
                 | Inr m' \<Rightarrow>
                     (let (err, s') = saveRecord (msgID m')
                            \<lparr>MyDID = myDID, TheirDID = theirDID, ThreadID = thID,
                             ParentThreadID = msgParentThreadID m', Metadata = []\<rparr> s
                      in \<lparr>res_err = err, res_msg = m', res_state = s'\<rparr>))))"

definition Send :: "msg \<Rightarrow> string \<Rightarrow> string \<Rightarrow> state \<Rightarrow> result" where
  "Send m myDID theirDID s =
     (let (m1, s1) = fillIfMissing m s in
      case saveMetadata m1 s1 of
        (Some e, s2) \<Rightarrow> \<lparr>res_err = Some (Wrap ''save metadata'' e), res_msg = m1, res_state = s2\<rparr>
      | (None, s2) \<Rightarrow>
          (let m2 = m1(jsonThread \<mapsto> JMap [(jsonThreadID, JStr (msgID m1))]);
               (err, s3) = dispatcher_SendToDID m2 myDID theirDID s2
           in \<lparr>res_err = err, res_msg = m2, res_state = s3\<rparr>))"

definition SendToDestination :: "msg \<Rightarrow> string \<Rightarrow> Destination option \<Rightarrow> state \<Rightarrow> result" where
  "SendToDestination m sender destination s =
     (let (m1, s1) = fillIfMissing m s in
      case saveMetadata m1 s1 of
        (Some e, s2) \<Rightarrow> \<lparr>res_err = Some (Wrap ''save metadata'' e), res_msg = m1, res_state = s2\<rparr>
      | (None, s2) \<Rightarrow>
          (let m2 = m1(jsonThread := None);
               (err, s3) = dispatcher_Send m2 sender destination s2
           in \<lparr>res_err = err, res_msg = m2, res_state = s3\<rparr>))"

definition ReplyTo :: "string \<Rightarrow> msg \<Rightarrow> state \<Rightarrow> result" where
  "ReplyTo msgID' m s =
     (let (m1, s1) = fillIfMissing m s in
      case getRecord msgID' s1 of
        Inl e \<Rightarrow> \<lparr>res_err = Some (Wrap ''get record'' e), res_msg = m1, res_state = s1\<rparr>
      | Inr r \<Rightarrow>
          (let thread = [(jsonThreadID, JStr (ThreadID r))];
               thread = (if ParentThreadID r \<noteq> ''''
                         then thread @ [(jsonParentThreadID, JStr (ParentThreadID r))]
                         else thread);
               m2 = m1(jsonThread \<mapsto> JMap thread)
           in
           case saveMetadata m2 s1 of
             (Some e, s2) \<Rightarrow> \<lparr>res_err = Some (Wrap ''save metadata'' e), res_msg = m2, res_state = s2\<rparr>
           | (None, s2) \<Rightarrow>
               (let (err, s3) = dispatcher_SendToDID m2 (MyDID r) (TheirDID r) s2
                in \<lparr>res_err = err, res_msg = m2, res_state = s3\<rparr>)))"

definition fillNestedReplyOption :: "NestedReplyOpts \<Rightarrow> state \<Rightarrow> error option \<times> NestedReplyOpts" where
  "fillNestedReplyOption opts s =
     (if opt_ThreadID opts \<noteq> '''' \<and> opt_TheirDID opts \<noteq> '''' \<and> opt_MyDID opts \<noteq> '''' then (None, opts)
      else if opt_MsgID opts = '''' then (None, opts)
      else (case getRecord (opt_MsgID opts) s of
              Inl e \<Rightarrow> (Some e, opts)
            | Inr r \<Rightarrow>
                (let o1 = (if opt_ThreadID opts = '''' then opts\<lparr>opt_ThreadID := ThreadID r\<rparr> else opts);
                     o2 = (if opt_TheirDID o1 = '''' then o1\<lparr>opt_TheirDID := TheirDID r\<rparr> else o1);
                     o3 = (if opt_MyDID o2 = '''' then o2\<lparr>opt_MyDID := MyDID r\<rparr> else o2)
                 in (None, o3))))"

definition ReplyToNested :: "msg \<Rightarrow> NestedReplyOpts \<Rightarrow> state \<Rightarrow> nested_result" where
  "ReplyToNested m opts s =
     (let (m1, s1) = fillIfMissing m s in
      case saveMetadata m1 s1 of
        (Some e, s2) \<Rightarrow>
          \<lparr>res_err = Some (Wrap ''save metadata'' e), res_msg = m1, res_state = s2, res_opts = opts\<rparr>
      | (None, s2) \<Rightarrow>
          (case fillNestedReplyOption opts s2 of
             (Some e, opts') \<Rightarrow>
               \<lparr>res_err = Some (Wrap ''failed to prepare nested reply options'' e),
                res_msg = m1, res_state = s2, res_opts = opts'\<rparr>
           | (None, opts') \<Rightarrow>
               (let m2 = m1(jsonThread \<mapsto> JMap [(jsonParentThreadID, JStr (opt_ThreadID opts'))]);
                    (err, s3) = dispatcher_SendToDID m2 (opt_MyDID opts') (opt_TheirDID opts') s2
                in \<lparr>res_err = err, res_msg = m2, res_state = s3, res_opts = opts'\<rparr>)))"

text \<open>The thread id a message with an \<open>@id\<close> is filed under: its \<open>~thread.thid\<close>, or else its \<open>@id\<close>.\<close>

definition threadOf :: "msg \<Rightarrow> string" where
  "threadOf m = (if msgThread m jsonThreadID \<noteq> '''' then msgThread m jsonThreadID else msgID m)"

section \<open>Sequences of Messenger operations\<close>

datatype op =
    OpHandleInbound msg string string
  | OpSend msg string string
  | OpSendToDestination msg string "Destination option"
  | OpReplyTo string msg
  | OpReplyToNested msg NestedReplyOpts

fun exec :: "op \<Rightarrow> state \<Rightarrow> state" where
  "exec (OpHandleInbound m myDID theirDID) s = res_state (HandleInbound m myDID theirDID s)"
| "exec (OpSend m myDID theirDID) s = res_state (Send m myDID theirDID s)"
| "exec (OpSendToDestination m sender destination) s = res_state (SendToDestination m sender destination s)"
| "exec (OpReplyTo msgID' m) s = res_state (ReplyTo msgID' m s)"
| "exec (OpReplyToNested m opts) s = res_state (ReplyToNested m opts s)"

text \<open>
  A step is an operation together with the errors the store (get, put) and the
  dispatcher answer with while it runs, so that they may fail in one step and succeed
  in the next.
\<close>

type_synonym step = "(error option \<times> error option \<times> error option) \<times> op"

fun exec_step :: "step \<Rightarrow> state \<Rightarrow> state" where
  "exec_step ((g, p, d), c) s = exec c (s\<lparr>get_err := g, put_err := p, send_err := d\<rparr>)"

fun run :: "step list \<Rightarrow> state \<Rightarrow> state" where
  "run [] s = s"
| "run (x # xs) s = run xs (exec_step x s)"

definition isHandleInboundFor :: "string \<Rightarrow> op \<Rightarrow> bool" where
  "isHandleInboundFor k c = (case c of OpHandleInbound m _ _ \<Rightarrow> msgID m = k | _ \<Rightarrow> False)"

section \<open>\<open>resolveDID\<close> of the BDD steps\<close>

text \<open>
  The resolver is an interface; its \<open>n\<close>-th call (from 0) for a DID answers with a
  document and an error, the error given by its text (\<open>None\<close> for \<open>nil\<close>). The run of
  \<open>resolveDID\<close> is observed as the list of its calls of \<open>Resolve\<close> and of
  \<open>time.Sleep\<close> (in seconds). The loop counter is a Go \<open>int\<close>, 64 bits wide, whose
  increment wraps around. The loop need not end: \<open>None\<close> is a run that never returns.
\<close>

datatype event = Resolve string | Sleep nat

type_synonym 'doc resolved = "'doc option \<times> string option"

definition stringsContains :: "string \<Rightarrow> string \<Rightarrow> bool" where
  "stringsContains s substr = sublist substr s"

definition wrap64 :: "int \<Rightarrow> int" where
  "wrap64 x = (x + 2 ^ 63) mod 2 ^ 64 - 2 ^ 63"

partial_function (option) resolveDID_loop ::
  "(string \<Rightarrow> nat \<Rightarrow> 'doc resolved) \<Rightarrow> string \<Rightarrow> int \<Rightarrow> int \<Rightarrow> nat \<Rightarrow> 'doc resolved \<Rightarrow> event list
    \<Rightarrow> ('doc resolved \<times> event list) option"
where
  "resolveDID_loop resolver did maxRetry i n prev tr =
     (if i \<le> maxRetry then
        (let res = resolver did n; tr1 = tr @ [Resolve did] in
         case snd res of
           None \<Rightarrow> Some (res, tr1)
         | Some e \<Rightarrow>
             if \<not> stringsContains e ''DID does not exist'' then Some (res, tr1)
             else resolveDID_loop resolver did maxRetry (wrap64 (i + 1)) (Suc n) res (tr1 @ [Sleep 1]))
      else Some (prev, tr))"

declare resolveDID_loop.simps [code]

definition resolveDID :: "(string \<Rightarrow> nat \<Rightarrow> 'doc resolved) \<Rightarrow> string \<Rightarrow> int \<Rightarrow> ('doc resolved \<times> event list) option" where
  "resolveDID resolver did maxRetry = resolveDID_loop resolver did maxRetry 1 0 (None, None) []"

text \<open>An attempt is retried when it failed with an error that says the DID does not exist.\<close>

definition retried :: "'doc resolved \<Rightarrow> bool" where
  "retried res = (case snd res of None \<Rightarrow> False | Some e \<Rightarrow> stringsContains e ''DID does not exist'')"

definition resolveCalls :: "event list \<Rightarrow> nat" where
  "resolveCalls tr = length (filter (\<lambda>ev. case ev of Resolve _ \<Rightarrow> True | Sleep _ \<Rightarrow> False) tr)"

fun attempts :: "string \<Rightarrow> nat \<Rightarrow> event list" where
  "attempts did 0 = []"
| "attempts did (Suc j) = Resolve did # Sleep 1 # attempts did j"

section \<open>Example inputs\<close>

text \<open>
  Scenario 3 of the specification: Bob has received the message \<open>m-1\<close> of thread
  \<open>t-1\<close> with parent thread \<open>p-1\<close>.
\<close>

definition ex_state :: state where
  "ex_state = \<lparr>store = Map.empty, get_err = None, put_err = None, send_err = None, calls = [],
               rnd = (\<lambda>_. replicate 16 0), drawn = 0\<rparr>"

definition ex_inbound :: msg where
  "ex_inbound = [jsonID \<mapsto> JStr ''m-1'',
                 jsonThread \<mapsto> JMap [(jsonThreadID, JStr ''t-1''), (jsonParentThreadID, JStr ''p-1'')]]"

definition ex_record :: msg_record where
  "ex_record = \<lparr>MyDID = ''did:bob'', TheirDID = ''did:alice'', ThreadID = ''t-1'',
                ParentThreadID = ''p-1'', Metadata = []\<rparr>"

definition ex_stored :: state where
  "ex_stored = ex_state\<lparr>store := [''m-1'' \<mapsto> ex_record]\<rparr>"

definition ex_reply :: msg where
  "ex_reply = [''@type'' \<mapsto> JStr ''https://example.org/reply'']"

definition ex_meta :: msg where
  "ex_meta = [jsonID \<mapsto> JStr ''m-2'', jsonMetadata \<mapsto> JMap [(''key'', JStr ''value'')]]"

definition ex_opts :: NestedReplyOpts where
  "ex_opts = \<lparr>opt_ThreadID = '''', opt_TheirDID = '''', opt_MyDID = '''', opt_MsgID = ''m-1''\<rparr>"

definition ex_opts_noref :: NestedReplyOpts where
  "ex_opts_noref = \<lparr>opt_ThreadID = '''', opt_TheirDID = ''did:alice'', opt_MyDID = ''did:bob'', opt_MsgID = ''''\<rparr>"

definition ex_no_faults :: "error option \<times> error option \<times> error option" where
  "ex_no_faults = (None, None, None)"

definition ex_resolver :: "string \<Rightarrow> nat \<Rightarrow> string resolved" where
  "ex_resolver did n =
     (if n < 2 then (None, Some ''resolve failed: DID does not exist'') else (Some ''doc'', None))"

definition ex_never :: "string \<Rightarrow> nat \<Rightarrow> string resolved" where
  "ex_never did n = (None, Some ''DID does not exist'')"

definition ex_resent :: msg where
  "ex_resent = [jsonID \<mapsto> JStr ''m-1'', jsonThread \<mapsto> JMap [(jsonThreadID, JStr ''t-2'')]]"

definition ex_opts_thread :: NestedReplyOpts where
  "ex_opts_thread = \<lparr>opt_ThreadID = ''t-9'', opt_TheirDID = ''did:carol'', opt_MyDID = '''', opt_MsgID = ''m-1''\<rparr>"

definition ex_colliding :: msg where
  "ex_colliding = [jsonID \<mapsto> JStr ''metadata_m-2'']"

section \<open>What the claims speak of\<close>

definition dispatchedMsg :: "dispatched \<Rightarrow> msg" where
  "dispatchedMsg c = (case c of SendToDID m _ _ \<Rightarrow> m | SendTo m _ _ \<Rightarrow> m)"

text \<open>
  An operation started on message \<open>m\<close> in state \<open>s\<close> and ending with message \<open>m'\<close> in
  state \<open>s'\<close> keeps a non-empty \<open>@id\<close> and replaces an empty one by the UUID drawn, and
  whatever it handed to the dispatcher is \<open>m'\<close>.
\<close>

definition outboundID :: "msg \<Rightarrow> state \<Rightarrow> msg \<Rightarrow> state \<Rightarrow> bool" where
  "outboundID m s m' s' \<longleftrightarrow>
     msgID m' \<noteq> '''' \<and>
     msgID m' = (if msgID m = '''' then next_uuid s else msgID m) \<and>
     (msgID m \<noteq> '''' \<longrightarrow> m' jsonID = m jsonID) \<and>
     (\<exists>cs. calls s' = calls s @ cs \<and> length cs \<le> 1 \<and> (\<forall>c\<in>set cs. dispatchedMsg c = m'))"

text \<open>
  The same, for an operation that succeeded on a message carrying metadata: the
  metadata is in the store under the key of thread \<open>th\<close>, and the one message handed
  to the dispatcher is \<open>m'\<close>, which still carries the metadata.
\<close>

definition metadataKept :: "msg \<Rightarrow> state \<Rightarrow> string \<Rightarrow> msg \<Rightarrow> state \<Rightarrow> bool" where
  "metadataKept m s th m' s' \<longleftrightarrow>
     store s' (metadataKey th) = Some (emptyRecord\<lparr>Metadata := msgMetadata m\<rparr>) \<and>
     m' jsonMetadata = m jsonMetadata \<and>
     msgMetadata m' = msgMetadata m \<and>
     (\<exists>c. calls s' = calls s @ [c] \<and> dispatchedMsg c = m')"

text \<open>The \<open>~thread\<close> decorator that \<open>ReplyTo\<close> builds from the record it replies to.\<close>

definition replyThread :: "msg_record \<Rightarrow> (string \<times> jvalue) list" where
  "replyThread r =
     (if ParentThreadID r \<noteq> ''''
      then [(jsonThreadID, JStr (ThreadID r)), (jsonParentThreadID, JStr (ParentThreadID r))]
      else [(jsonThreadID, JStr (ThreadID r))])"

section \<open>Facts about the helpers\<close>

lemma next_uuid_nonempty: "next_uuid s \<noteq> ''''"
  by (simp add: next_uuid_def uuid_String_def)

lemma fillIfMissing_msgID:
  "msgID (fst (fillIfMissing m s)) = (if msgID m = '''' then next_uuid s else msgID m)"
  by (simp add: fillIfMissing_def msgID_def)

lemma fillIfMissing_nonempty: "msgID (fst (fillIfMissing m s)) \<noteq> ''''"
  by (simp add: fillIfMissing_msgID next_uuid_nonempty)

lemma fillIfMissing_other: "k \<noteq> jsonID \<Longrightarrow> fst (fillIfMissing m s) k = m k"
  by (simp add: fillIfMissing_def)

lemma fillIfMissing_id: "msgID m \<noteq> '''' \<Longrightarrow> fst (fillIfMissing m s) = m"
  by (simp add: fillIfMissing_def)

lemma fillIfMissing_state:
  "store (snd (fillIfMissing m s)) = store s"
  "calls (snd (fillIfMissing m s)) = calls s"
  "get_err (snd (fillIfMissing m s)) = get_err s"
  "put_err (snd (fillIfMissing m s)) = put_err s"
  "send_err (snd (fillIfMissing m s)) = send_err s"
  by (simp_all add: fillIfMissing_def)

lemma msgID_upd_other: "k \<noteq> jsonID \<Longrightarrow> msgID (m(k := v)) = msgID m"
  by (simp add: msgID_def)

lemma msgMetadata_upd_other: "k \<noteq> jsonMetadata \<Longrightarrow> msgMetadata (m(k := v)) = msgMetadata m"
  by (simp add: msgMetadata_def)

lemma msgMetadata_fill: "msgMetadata (fst (fillIfMissing m s)) = msgMetadata m"
  by (simp add: fillIfMissing_def msgMetadata_def)

lemma msgThread_fill: "msgThread (fst (fillIfMissing m s)) k = msgThread m k"
  by (simp add: fillIfMissing_def msgThread_def)

lemma msgThreadID_ok: "msgID m \<noteq> '''' \<Longrightarrow> msgThreadID m = Inr (threadOf m)"
  by (simp add: msgThreadID_def threadOf_def Let_def)

lemma getRecord_eq:
  "getRecord k s =
     (case get_err s of
        Some e \<Rightarrow> Inl (Wrap ''store get'' e)
      | None \<Rightarrow> (case store s k of
                   None \<Rightarrow> Inl (Wrap ''store get'' ErrDataNotFound)
                 | Some r \<Rightarrow> Inr r))"
  by (simp add: getRecord_def store_Get_def split: option.splits)

lemma saveMetadata_eq:
  "msgID m \<noteq> '''' \<Longrightarrow>
   saveMetadata m s =
     (if msgMetadata m = [] then (None, s)
      else (case put_err s of
              Some e \<Rightarrow> (Some e, s)
            | None \<Rightarrow> (None, s\<lparr>store := (store s)(metadataKey (threadOf m) \<mapsto>
                                   emptyRecord\<lparr>Metadata := msgMetadata m\<rparr>)\<rparr>)))"
  by (simp add: saveMetadata_def msgThreadID_ok saveRecord_def store_Put_def Let_def)

lemma saveMetadata_calls: "calls (snd (saveMetadata m s)) = calls s"
  by (simp add: saveMetadata_def saveRecord_def store_Put_def Let_def split: sum.splits option.splits)

lemma saveMetadata_errs:
  "get_err (snd (saveMetadata m s)) = get_err s"
  "put_err (snd (saveMetadata m s)) = put_err s"
  "send_err (snd (saveMetadata m s)) = send_err s"
  by (simp_all add: saveMetadata_def saveRecord_def store_Put_def Let_def split: sum.splits option.splits)

lemma saveMetadata_ok:
  "msgMetadata m = [] \<or> put_err s = None \<Longrightarrow> msgID m \<noteq> '''' \<Longrightarrow> fst (saveMetadata m s) = None"
  by (auto simp: saveMetadata_eq)

text \<open>The operations, with the pairs of the helpers taken apart.\<close>

lemma Send_eq:
  "Send m myDID theirDID s =
     (let m1 = fst (fillIfMissing m s); s1 = snd (fillIfMissing m s); s2 = snd (saveMetadata m1 s1) in
      case fst (saveMetadata m1 s1) of
        Some e \<Rightarrow> \<lparr>res_err = Some (Wrap ''save metadata'' e), res_msg = m1, res_state = s2\<rparr>
      | None \<Rightarrow>
          \<lparr>res_err = send_err s,
           res_msg = m1(jsonThread \<mapsto> JMap [(jsonThreadID, JStr (msgID m1))]),
           res_state = s2\<lparr>calls := calls s @
             [SendToDID (m1(jsonThread \<mapsto> JMap [(jsonThreadID, JStr (msgID m1))])) myDID theirDID]\<rparr>\<rparr>)"
  by (simp add: Send_def Let_def case_prod_beta dispatcher_SendToDID_def saveMetadata_calls
        saveMetadata_errs fillIfMissing_state split: option.splits)

lemma SendToDestination_eq:
  "SendToDestination m sender destination s =
     (let m1 = fst (fillIfMissing m s); s1 = snd (fillIfMissing m s); s2 = snd (saveMetadata m1 s1) in
      case fst (saveMetadata m1 s1) of
        Some e \<Rightarrow> \<lparr>res_err = Some (Wrap ''save metadata'' e), res_msg = m1, res_state = s2\<rparr>
      | None \<Rightarrow>
          \<lparr>res_err = send_err s,
           res_msg = m1(jsonThread := None),
           res_state = s2\<lparr>calls := calls s @ [SendTo (m1(jsonThread := None)) sender destination]\<rparr>\<rparr>)"
  by (simp add: SendToDestination_def Let_def case_prod_beta dispatcher_Send_def saveMetadata_calls
        saveMetadata_errs fillIfMissing_state split: option.splits)

lemma ReplyTo_eq:
  "ReplyTo k m s =
     (let m1 = fst (fillIfMissing m s); s1 = snd (fillIfMissing m s) in
      case getRecord k s1 of
        Inl e \<Rightarrow> \<lparr>res_err = Some (Wrap ''get record'' e), res_msg = m1, res_state = s1\<rparr>
      | Inr r \<Rightarrow>
          (let m2 = m1(jsonThread \<mapsto> JMap (replyThread r));
               s2 = snd (saveMetadata m2 s1)
           in case fst (saveMetadata m2 s1) of
                Some e \<Rightarrow> \<lparr>res_err = Some (Wrap ''save metadata'' e), res_msg = m2, res_state = s2\<rparr>
              | None \<Rightarrow> \<lparr>res_err = send_err s, res_msg = m2,
                          res_state = s2\<lparr>calls := calls s @ [SendToDID m2 (MyDID r) (TheirDID r)]\<rparr>\<rparr>))"
  by (simp add: ReplyTo_def Let_def case_prod_beta dispatcher_SendToDID_def saveMetadata_calls
        saveMetadata_errs fillIfMissing_state replyThread_def split: sum.splits option.splits)

lemma replyThread_map:
  "map_of (replyThread r) =
     (if ParentThreadID r \<noteq> ''''
      then [jsonThreadID \<mapsto> JStr (ThreadID r), jsonParentThreadID \<mapsto> JStr (ParentThreadID r)]
      else [jsonThreadID \<mapsto> JStr (ThreadID r)])"
  by (auto simp: replyThread_def)

lemma replyThread_thid: "map_of (replyThread r) jsonThreadID = Some (JStr (ThreadID r))"
  by (simp add: replyThread_def)

lemma ReplyToNested_eq:
  "ReplyToNested m opts s =
     (let m1 = fst (fillIfMissing m s); s1 = snd (fillIfMissing m s); s2 = snd (saveMetadata m1 s1) in
      case fst (saveMetadata m1 s1) of
        Some e \<Rightarrow> \<lparr>res_err = Some (Wrap ''save metadata'' e), res_msg = m1, res_state = s2, res_opts = opts\<rparr>
      | None \<Rightarrow>
          (let opts' = snd (fillNestedReplyOption opts s2) in
           case fst (fillNestedReplyOption opts s2) of
             Some e \<Rightarrow> \<lparr>res_err = Some (Wrap ''failed to prepare nested reply options'' e),
                         res_msg = m1, res_state = s2, res_opts = opts'\<rparr>
           | None \<Rightarrow>
               \<lparr>res_err = send_err s,
                res_msg = m1(jsonThread \<mapsto> JMap [(jsonParentThreadID, JStr (opt_ThreadID opts'))]),
                res_state = s2\<lparr>calls := calls s @
                  [SendToDID (m1(jsonThread \<mapsto> JMap [(jsonParentThreadID, JStr (opt_ThreadID opts'))]))
                     (opt_MyDID opts') (opt_TheirDID opts')]\<rparr>,
                res_opts = opts'\<rparr>))"
  by (simp add: ReplyToNested_def Let_def case_prod_beta dispatcher_SendToDID_def saveMetadata_calls
        saveMetadata_errs fillIfMissing_state split: option.splits)

section \<open>Replies\<close>

text \<open>
  Claim C1. When a record is stored for \<open>msgID\<close> and \<open>ReplyTo\<close> succeeds, the message
  handed to the dispatcher has \<open>~thread.thid\<close> equal to the record's thread id,
  \<open>~thread.pthid\<close> equal to the record's parent thread id when that is non-empty and
  no \<open>pthid\<close> otherwise, and goes to the record's \<open>my_did\<close> and \<open>their_did\<close>. When no
  record is stored for \<open>msgID\<close>, \<open>ReplyTo\<close> fails.
\<close>

theorem ReplyTo_thread:
  "(store s k = None \<longrightarrow> res_err (ReplyTo k m s) \<noteq> None) \<and>
   (store s k = Some r \<and> res_err (ReplyTo k m s) = None \<longrightarrow>
      (\<exists>t. res_msg (ReplyTo k m s) jsonThread = Some (JMap t) \<and>
           map_of t =
             (if ParentThreadID r \<noteq> ''''
              then [jsonThreadID \<mapsto> JStr (ThreadID r), jsonParentThreadID \<mapsto> JStr (ParentThreadID r)]
              else [jsonThreadID \<mapsto> JStr (ThreadID r)])) \<and>
      calls (res_state (ReplyTo k m s)) =
        calls s @ [SendToDID (res_msg (ReplyTo k m s)) (MyDID r) (TheirDID r)])"
  by (auto simp: ReplyTo_eq getRecord_eq fillIfMissing_state Let_def replyThread_map split: option.splits)

theorem ReplyTo_thread_witness:
  "store ex_stored ''m-1'' = Some ex_record \<and>
   res_err (ReplyTo ''m-1'' ex_reply ex_stored) = None \<and>
   (\<exists>t. res_msg (ReplyTo ''m-1'' ex_reply ex_stored) jsonThread = Some (JMap t) \<and>
        map_of t = [jsonThreadID \<mapsto> JStr ''t-1'', jsonParentThreadID \<mapsto> JStr ''p-1'']) \<and>
   calls (res_state (ReplyTo ''m-1'' ex_reply ex_stored)) =
     [SendToDID (res_msg (ReplyTo ''m-1'' ex_reply ex_stored)) ''did:bob'' ''did:alice''] \<and>
   store ex_state ''m-1'' = None \<and> res_err (ReplyTo ''m-1'' ex_reply ex_state) \<noteq> None"
proof -
  have a: "store ex_stored ''m-1'' = Some ex_record"
    by (simp add: ex_stored_def)
  have b: "res_err (ReplyTo ''m-1'' ex_reply ex_stored) = None"
    by (simp add: ReplyTo_eq getRecord_eq fillIfMissing_state Let_def ex_stored_def ex_state_def
          saveMetadata_def msgMetadata_def fillIfMissing_def ex_reply_def)
  have c: "store ex_state ''m-1'' = None"
    by (simp add: ex_state_def)
  show ?thesis
    using ReplyTo_thread [of ex_stored "''m-1''" ex_reply ex_record] ReplyTo_thread [of ex_state "''m-1''" ex_reply] a b c
    by (simp add: ex_record_def ex_stored_def ex_state_def)
qed

text \<open>
  Claim C9. \<open>ReplyTo\<close> is not atomic on failure: for a message without an \<open>@id\<close>, a call
  that fails because no record is stored for \<open>msgID\<close> has already given the caller's
  message a fresh \<open>@id\<close>; nothing is handed to the dispatcher and nothing is written
  to the store.
\<close>

theorem ReplyTo_not_atomic:
  "msgID m = '''' \<and> get_err s = None \<and> store s k = None \<longrightarrow>
     res_err (ReplyTo k m s) = Some (Wrap ''get record'' (Wrap ''store get'' ErrDataNotFound)) \<and>
     res_msg (ReplyTo k m s) = m(jsonID \<mapsto> JStr (next_uuid s)) \<and>
     msgID (res_msg (ReplyTo k m s)) \<noteq> '''' \<and>
     calls (res_state (ReplyTo k m s)) = calls s \<and>
     store (res_state (ReplyTo k m s)) = store s"
  by (simp add: ReplyTo_def fillIfMissing_def getRecord_def store_Get_def msgID_def next_uuid_nonempty)

theorem ReplyTo_not_atomic_witness:
  "msgID ex_reply = '''' \<and> get_err ex_state = None \<and> store ex_state ''m-1'' = None \<and>
   res_err (ReplyTo ''m-1'' ex_reply ex_state) = Some (Wrap ''get record'' (Wrap ''store get'' ErrDataNotFound)) \<and>
   res_msg (ReplyTo ''m-1'' ex_reply ex_state) = ex_reply(jsonID \<mapsto> JStr (next_uuid ex_state)) \<and>
   msgID (res_msg (ReplyTo ''m-1'' ex_reply ex_state)) \<noteq> '''' \<and>
   calls (res_state (ReplyTo ''m-1'' ex_reply ex_state)) = [] \<and>
   store (res_state (ReplyTo ''m-1'' ex_reply ex_state)) = Map.empty"
proof -
  have a: "msgID ex_reply = ''''" by (simp add: msgID_def ex_reply_def)
  have b: "get_err ex_state = None" "store ex_state ''m-1'' = None" "calls ex_state = []"
    "store ex_state = Map.empty"
    by (simp_all add: ex_state_def)
  show ?thesis
    using ReplyTo_not_atomic [of ex_reply ex_state "''m-1''"] a b
    by (simp add: msgID_def next_uuid_nonempty)
qed

section \<open>New threads\<close>

text \<open>
  Claim C2. \<open>Send\<close> gives the message a fresh UUID as \<open>@id\<close> when it has none and keeps
  every key but \<open>@id\<close> and \<open>~thread\<close>; unless persisting attached metadata fails, it
  hands the message to the dispatcher with \<open>~thread = {thid: @id}\<close> and nothing else
  under \<open>~thread\<close>, whatever \<open>~thread\<close> the caller had put there.
\<close>

theorem Send_new_thread:
  "msgID (res_msg (Send m myDID theirDID s)) = (if msgID m = '''' then next_uuid s else msgID m) \<and>
   (msgID m = '''' \<longrightarrow> res_msg (Send m myDID theirDID s) jsonID = Some (JStr (next_uuid s))) \<and>
   (\<forall>k. k \<noteq> jsonID \<and> k \<noteq> jsonThread \<longrightarrow> res_msg (Send m myDID theirDID s) k = m k) \<and>
   (msgMetadata m = [] \<or> put_err s = None \<longrightarrow>
      res_msg (Send m myDID theirDID s) jsonThread =
        Some (JMap [(jsonThreadID, JStr (msgID (res_msg (Send m myDID theirDID s))))]) \<and>
      calls (res_state (Send m myDID theirDID s)) =
        calls s @ [SendToDID (res_msg (Send m myDID theirDID s)) myDID theirDID] \<and>
      res_err (Send m myDID theirDID s) = send_err s)"
proof -
  let ?m1 = "fst (fillIfMissing m s)" and ?s1 = "snd (fillIfMissing m s)"
  have id1: "msgID ?m1 = (if msgID m = '''' then next_uuid s else msgID m)"
    by (rule fillIfMissing_msgID)
  have ne: "msgID ?m1 \<noteq> ''''" by (rule fillIfMissing_nonempty)
  have p1: "msgID (res_msg (Send m myDID theirDID s)) = msgID ?m1"
    by (simp add: Send_eq Let_def msgID_upd_other split: option.splits)
  have p2: "msgID m = '''' \<longrightarrow> res_msg (Send m myDID theirDID s) jsonID = Some (JStr (next_uuid s))"
    by (simp add: Send_eq Let_def fillIfMissing_def split: option.splits)
  have p3: "\<forall>k. k \<noteq> jsonID \<and> k \<noteq> jsonThread \<longrightarrow> res_msg (Send m myDID theirDID s) k = m k"
    by (simp add: Send_eq Let_def fillIfMissing_other split: option.splits)
  have p4: "msgMetadata m = [] \<or> put_err s = None \<longrightarrow>
      res_msg (Send m myDID theirDID s) jsonThread =
        Some (JMap [(jsonThreadID, JStr (msgID (res_msg (Send m myDID theirDID s))))]) \<and>
      calls (res_state (Send m myDID theirDID s)) =
        calls s @ [SendToDID (res_msg (Send m myDID theirDID s)) myDID theirDID] \<and>
      res_err (Send m myDID theirDID s) = send_err s"
  proof
    assume "msgMetadata m = [] \<or> put_err s = None"
    then have "fst (saveMetadata ?m1 ?s1) = None"
      using ne by (intro saveMetadata_ok) (simp_all add: msgMetadata_fill fillIfMissing_state)
    then show "res_msg (Send m myDID theirDID s) jsonThread =
        Some (JMap [(jsonThreadID, JStr (msgID (res_msg (Send m myDID theirDID s))))]) \<and>
      calls (res_state (Send m myDID theirDID s)) =
        calls s @ [SendToDID (res_msg (Send m myDID theirDID s)) myDID theirDID] \<and>
      res_err (Send m myDID theirDID s) = send_err s"
      by (simp add: Send_eq Let_def msgID_upd_other)
  qed
  from p1 id1 p2 p3 p4 show ?thesis by simp
qed

theorem Send_new_thread_witness:
  "msgID ex_inbound \<noteq> '''' \<and> msgMetadata ex_inbound = [] \<and>
   msgID (res_msg (Send ex_inbound ''did:bob'' ''did:alice'' ex_state)) = ''m-1'' \<and>
   res_msg (Send ex_inbound ''did:bob'' ''did:alice'' ex_state) jsonThread =
     Some (JMap [(jsonThreadID, JStr ''m-1'')]) \<and>
   calls (res_state (Send ex_inbound ''did:bob'' ''did:alice'' ex_state)) =
     [SendToDID (res_msg (Send ex_inbound ''did:bob'' ''did:alice'' ex_state)) ''did:bob'' ''did:alice''] \<and>
   res_err (Send ex_inbound ''did:bob'' ''did:alice'' ex_state) = None \<and>
   msgID ex_reply = '''' \<and>
   res_msg (Send ex_reply ''did:bob'' ''did:alice'' ex_state) jsonID = Some (JStr (next_uuid ex_state)) \<and>
   res_msg (Send ex_reply ''did:bob'' ''did:alice'' ex_state) ''@type'' = ex_reply ''@type''"
proof -
  have a: "msgID ex_inbound = ''m-1''" "msgMetadata ex_inbound = []" "msgID ex_reply = ''''"
    by (simp_all add: msgID_def msgMetadata_def ex_inbound_def ex_reply_def)
  have b: "calls ex_state = []" "send_err ex_state = None" by (simp_all add: ex_state_def)
  show ?thesis
    using Send_new_thread [of ex_inbound "''did:bob''" "''did:alice''" ex_state]
      Send_new_thread [of ex_reply "''did:bob''" "''did:alice''" ex_state] a b
    by simp
qed

section \<open>Inbound messages\<close>

text \<open>
  Claim C3. \<open>HandleInbound\<close> returns an error and leaves the state as it was when the
  message has no \<open>@id\<close>. Otherwise, when the store answers without error, it succeeds;
  and whenever it succeeds, the store holds under the message's \<open>@id\<close> the record of
  \<open>myDID\<close>, \<open>theirDID\<close>, the thread id (\<open>~thread.thid\<close> when present, the \<open>@id\<close>
  otherwise) and the parent thread id, and \<open>getRecord\<close> reads that record back.
\<close>

theorem HandleInbound_record:
  "(msgID m = '''' \<longrightarrow>
      res_err (HandleInbound m myDID theirDID s) \<noteq> None \<and>
      res_state (HandleInbound m myDID theirDID s) = s) \<and>
   (msgID m \<noteq> '''' \<and> get_err s = None \<and> put_err s = None \<longrightarrow>
      res_err (HandleInbound m myDID theirDID s) = None) \<and>
   (msgID m \<noteq> '''' \<and> res_err (HandleInbound m myDID theirDID s) = None \<longrightarrow>
      store (res_state (HandleInbound m myDID theirDID s)) (msgID m) =
        Some \<lparr>MyDID = myDID, TheirDID = theirDID,
              ThreadID = (if msgThread m jsonThreadID \<noteq> '''' then msgThread m jsonThreadID else msgID m),
              ParentThreadID = msgParentThreadID m, Metadata = []\<rparr> \<and>
      getRecord (msgID m) (res_state (HandleInbound m myDID theirDID s)\<lparr>get_err := None\<rparr>) =
        Inr \<lparr>MyDID = myDID, TheirDID = theirDID,
             ThreadID = (if msgThread m jsonThreadID \<noteq> '''' then msgThread m jsonThreadID else msgID m),
             ParentThreadID = msgParentThreadID m, Metadata = []\<rparr>)"
proof (intro conjI impI)
  assume "msgID m = ''''"
  then show "res_err (HandleInbound m myDID theirDID s) \<noteq> None"
    and "res_state (HandleInbound m myDID theirDID s) = s"
    by (simp_all add: HandleInbound_def)
next
  assume "msgID m \<noteq> '''' \<and> get_err s = None \<and> put_err s = None"
  then show "res_err (HandleInbound m myDID theirDID s) = None"
    by (simp add: HandleInbound_def msgThreadID_ok populateMetadata_def getRecord_eq saveRecord_def
          store_Put_def msgID_upd_other split: option.splits)
next
  assume a: "msgID m \<noteq> '''' \<and> res_err (HandleInbound m myDID theirDID s) = None"
  then have p: "put_err s = None"
    by (auto simp: HandleInbound_def msgThreadID_ok populateMetadata_def getRecord_eq saveRecord_def
          store_Put_def split: option.splits if_splits)
  from a p show st: "store (res_state (HandleInbound m myDID theirDID s)) (msgID m) =
        Some \<lparr>MyDID = myDID, TheirDID = theirDID,
              ThreadID = (if msgThread m jsonThreadID \<noteq> '''' then msgThread m jsonThreadID else msgID m),
              ParentThreadID = msgParentThreadID m, Metadata = []\<rparr>"
    by (auto simp: HandleInbound_def msgThreadID_ok populateMetadata_def getRecord_eq saveRecord_def
          store_Put_def msgID_upd_other threadOf_def msgParentThreadID_def msgThread_def
          split: option.splits if_splits)
  then show "getRecord (msgID m) (res_state (HandleInbound m myDID theirDID s)\<lparr>get_err := None\<rparr>) =
        Inr \<lparr>MyDID = myDID, TheirDID = theirDID,
             ThreadID = (if msgThread m jsonThreadID \<noteq> '''' then msgThread m jsonThreadID else msgID m),
             ParentThreadID = msgParentThreadID m, Metadata = []\<rparr>"
    by (simp add: getRecord_eq)
qed

theorem HandleInbound_record_witness:
  "msgID ex_inbound \<noteq> '''' \<and> get_err ex_state = None \<and> put_err ex_state = None \<and>
   res_err (HandleInbound ex_inbound ''did:bob'' ''did:alice'' ex_state) = None \<and>
   store (res_state (HandleInbound ex_inbound ''did:bob'' ''did:alice'' ex_state)) ''m-1'' = Some ex_record \<and>
   getRecord ''m-1'' (res_state (HandleInbound ex_inbound ''did:bob'' ''did:alice'' ex_state)\<lparr>get_err := None\<rparr>) =
     Inr ex_record \<and>
   msgID ex_reply = '''' \<and>
   res_err (HandleInbound ex_reply ''did:bob'' ''did:alice'' ex_state) \<noteq> None \<and>
   res_state (HandleInbound ex_reply ''did:bob'' ''did:alice'' ex_state) = ex_state"
proof -
  have a: "msgID ex_inbound = ''m-1''" "msgThread ex_inbound jsonThreadID = ''t-1''"
    "msgParentThreadID ex_inbound = ''p-1''" "msgID ex_reply = ''''"
    by (simp_all add: msgID_def msgThread_def msgParentThreadID_def ex_inbound_def ex_reply_def)
  have b: "get_err ex_state = None" "put_err ex_state = None" by (simp_all add: ex_state_def)
  show ?thesis
    using HandleInbound_record [of ex_inbound "''did:bob''" "''did:alice''" ex_state]
      HandleInbound_record [of ex_reply "''did:bob''" "''did:alice''" ex_state] a b
    by (simp add: ex_record_def)
qed

section \<open>Nested replies\<close>

lemma fillNestedReplyOption_noref:
  "opt_MsgID opts = '''' \<Longrightarrow> fillNestedReplyOption opts s = (None, opts)"
  by (simp add: fillNestedReplyOption_def)

lemma fillNestedReplyOption_given:
  "opt_ThreadID opts \<noteq> '''' \<and> opt_TheirDID opts \<noteq> '''' \<and> opt_MyDID opts \<noteq> '''' \<Longrightarrow>
   fillNestedReplyOption opts s = (None, opts)"
  by (simp add: fillNestedReplyOption_def)

lemma fillNestedReplyOption_MsgID:
  "opt_MsgID (snd (fillNestedReplyOption opts s)) = opt_MsgID opts"
  by (simp add: fillNestedReplyOption_def Let_def split: sum.splits)

lemma fillNestedReplyOption_kept:
  "(opt_ThreadID opts \<noteq> '''' \<longrightarrow> opt_ThreadID (snd (fillNestedReplyOption opts s)) = opt_ThreadID opts) \<and>
   (opt_MyDID opts \<noteq> '''' \<longrightarrow> opt_MyDID (snd (fillNestedReplyOption opts s)) = opt_MyDID opts) \<and>
   (opt_TheirDID opts \<noteq> '''' \<longrightarrow> opt_TheirDID (snd (fillNestedReplyOption opts s)) = opt_TheirDID opts)"
  by (simp add: fillNestedReplyOption_def Let_def split: sum.splits)

lemma fillNestedReplyOption_filled:
  assumes "opt_MsgID opts \<noteq> ''''"
    and "\<not> (opt_ThreadID opts \<noteq> '''' \<and> opt_TheirDID opts \<noteq> '''' \<and> opt_MyDID opts \<noteq> '''')"
    and "fst (fillNestedReplyOption opts s) = None"
  shows "\<exists>r. store s (opt_MsgID opts) = Some r \<and>
           (opt_ThreadID opts = '''' \<longrightarrow> opt_ThreadID (snd (fillNestedReplyOption opts s)) = ThreadID r) \<and>
           (opt_MyDID opts = '''' \<longrightarrow> opt_MyDID (snd (fillNestedReplyOption opts s)) = MyDID r) \<and>
           (opt_TheirDID opts = '''' \<longrightarrow> opt_TheirDID (snd (fillNestedReplyOption opts s)) = TheirDID r)"
proof (cases "getRecord (opt_MsgID opts) s")
  case (Inl e)
  with assms show ?thesis by (auto simp: fillNestedReplyOption_def)
next
  case (Inr r)
  then have "store s (opt_MsgID opts) = Some r"
    by (simp add: getRecord_eq split: option.splits)
  with assms Inr show ?thesis
    by (intro exI[of _ r]) (simp add: fillNestedReplyOption_def Let_def)
qed

lemma ex_reply_plain: "msgMetadata ex_reply = []" "msgID ex_reply = ''''"
  by (simp_all add: msgMetadata_def msgID_def ex_reply_def)

lemma metadataKey_prefix: "prefix ''metadata_'' (metadataKey th)"
  by (simp add: metadataKey_def)

lemma saveMetadata_store_other:
  "\<not> prefix ''metadata_'' k \<or> msgMetadata m = [] \<Longrightarrow> store (snd (saveMetadata m s)) k = store s k"
proof (cases "msgMetadata m = []")
  case True
  then show ?thesis by (simp add: saveMetadata_def)
next
  case False
  assume "\<not> prefix ''metadata_'' k \<or> msgMetadata m = []"
  with False have "\<And>th. k \<noteq> metadataKey th" using metadataKey_prefix by auto
  then show ?thesis
    by (simp add: saveMetadata_def saveRecord_def store_Put_def Let_def split: sum.splits option.splits)
qed

text \<open>
  Claim C10. With neither a message id nor a thread id in the options,
  \<open>ReplyToNested\<close> does not fail for the missing reference: unless persisting attached
  metadata fails, it hands the message to the dispatcher with \<open>~thread = {pthid: ""}\<close>
  for the DIDs of the options as given, and returns what the dispatcher returns.
\<close>

theorem ReplyToNested_no_reference:
  "opt_MsgID opts = '''' \<and> opt_ThreadID opts = '''' \<and> (msgMetadata m = [] \<or> put_err s = None) \<longrightarrow>
     res_err (ReplyToNested m opts s) = send_err s \<and>
     res_opts (ReplyToNested m opts s) = opts \<and>
     res_msg (ReplyToNested m opts s) jsonThread = Some (JMap [(jsonParentThreadID, JStr '''')]) \<and>
     calls (res_state (ReplyToNested m opts s)) =
       calls s @ [SendToDID (res_msg (ReplyToNested m opts s)) (opt_MyDID opts) (opt_TheirDID opts)]"
proof
  let ?m1 = "fst (fillIfMissing m s)" and ?s1 = "snd (fillIfMissing m s)"
  assume a: "opt_MsgID opts = '''' \<and> opt_ThreadID opts = '''' \<and> (msgMetadata m = [] \<or> put_err s = None)"
  then have "fst (saveMetadata ?m1 ?s1) = None"
    using fillIfMissing_nonempty [of m s]
    by (intro saveMetadata_ok) (simp_all add: msgMetadata_fill fillIfMissing_state)
  with a show "res_err (ReplyToNested m opts s) = send_err s \<and>
     res_opts (ReplyToNested m opts s) = opts \<and>
     res_msg (ReplyToNested m opts s) jsonThread = Some (JMap [(jsonParentThreadID, JStr '''')]) \<and>
     calls (res_state (ReplyToNested m opts s)) =
       calls s @ [SendToDID (res_msg (ReplyToNested m opts s)) (opt_MyDID opts) (opt_TheirDID opts)]"
    by (simp add: ReplyToNested_eq Let_def fillNestedReplyOption_noref)
qed

theorem ReplyToNested_no_reference_witness:
  "opt_MsgID ex_opts_noref = '''' \<and> opt_ThreadID ex_opts_noref = '''' \<and> msgMetadata ex_reply = [] \<and>
   res_err (ReplyToNested ex_reply ex_opts_noref ex_stored) = None \<and>
   res_opts (ReplyToNested ex_reply ex_opts_noref ex_stored) = ex_opts_noref \<and>
   res_msg (ReplyToNested ex_reply ex_opts_noref ex_stored) jsonThread =
     Some (JMap [(jsonParentThreadID, JStr '''')]) \<and>
   calls (res_state (ReplyToNested ex_reply ex_opts_noref ex_stored)) =
     [SendToDID (res_msg (ReplyToNested ex_reply ex_opts_noref ex_stored)) ''did:bob'' ''did:alice'']"
proof -
  have a: "opt_MsgID ex_opts_noref = ''''" "opt_ThreadID ex_opts_noref = ''''"
    "opt_MyDID ex_opts_noref = ''did:bob''" "opt_TheirDID ex_opts_noref = ''did:alice''"
    "msgMetadata ex_reply = []"
    by (simp_all add: ex_opts_noref_def msgMetadata_def ex_reply_def)
  have b: "send_err ex_stored = None" "calls ex_stored = []"
    by (simp_all add: ex_stored_def ex_state_def)
  show ?thesis
    using ReplyToNested_no_reference [of ex_opts_noref ex_reply ex_stored] a b by simp
qed

text \<open>
  Claim C4, as stated, fails where the options name no message: Bob's nested reply
  with neither \<open>msg_id\<close> nor \<open>thread_id\<close> succeeds, and its parent thread id is that
  of no stored record.
\<close>

theorem ReplyToNested_thread_counterexample:
  "\<not> (res_err (ReplyToNested ex_reply ex_opts_noref ex_stored) = None \<longrightarrow>
        (\<exists>T. res_msg (ReplyToNested ex_reply ex_opts_noref ex_stored) jsonThread =
                Some (JMap [(jsonParentThreadID, JStr T)]) \<and>
             (if opt_ThreadID ex_opts_noref \<noteq> '''' then T = opt_ThreadID ex_opts_noref
              else \<exists>r. store ex_stored (opt_MsgID ex_opts_noref) = Some r \<and> T = ThreadID r)))"
proof -
  have a: "opt_MsgID ex_opts_noref = ''''" "opt_ThreadID ex_opts_noref = ''''"
    by (simp_all add: ex_opts_noref_def)
  have b: "store ex_stored '''' = None" by (simp add: ex_stored_def ex_state_def)
  have c: "fst (saveMetadata (fst (fillIfMissing ex_reply ex_stored)) (snd (fillIfMissing ex_reply ex_stored))) = None"
    by (intro saveMetadata_ok fillIfMissing_nonempty) (simp add: msgMetadata_fill ex_reply_plain)
  have "res_err (ReplyToNested ex_reply ex_opts_noref ex_stored) = None"
    using a c by (simp add: ReplyToNested_eq Let_def fillNestedReplyOption_noref ex_stored_def ex_state_def)
  with a b show ?thesis by simp
qed

text \<open>
  Claim C4, amended. A successful \<open>ReplyToNested\<close> hands the message to the dispatcher
  with \<open>~thread = {pthid: T}\<close> and no \<open>thid\<close>, for the DIDs of the filled options, with a
  fresh \<open>@id\<close> when there was none. \<open>T\<close> and the DIDs are those of the options where
  given. Where one is missing and the options name a message, the missing ones come
  from the record stored for that message when it is looked up, which is the record
  of the starting state unless the metadata of this very message was just filed under
  that key. Where the options name no message, or give all three, no record is
  consulted and the options stay as they are, so that what is missing stays empty;
  the message id of the options is never changed.
\<close>

theorem ReplyToNested_thread:
  "res_err (ReplyToNested m opts s) = None \<longrightarrow>
     res_msg (ReplyToNested m opts s) jsonThread =
       Some (JMap [(jsonParentThreadID, JStr (opt_ThreadID (res_opts (ReplyToNested m opts s))))]) \<and>
     calls (res_state (ReplyToNested m opts s)) =
       calls s @ [SendToDID (res_msg (ReplyToNested m opts s))
                    (opt_MyDID (res_opts (ReplyToNested m opts s)))
                    (opt_TheirDID (res_opts (ReplyToNested m opts s)))] \<and>
     msgID (res_msg (ReplyToNested m opts s)) = (if msgID m = '''' then next_uuid s else msgID m) \<and>
     (opt_ThreadID opts \<noteq> '''' \<longrightarrow> opt_ThreadID (res_opts (ReplyToNested m opts s)) = opt_ThreadID opts) \<and>
     (opt_MyDID opts \<noteq> '''' \<longrightarrow> opt_MyDID (res_opts (ReplyToNested m opts s)) = opt_MyDID opts) \<and>
     (opt_TheirDID opts \<noteq> '''' \<longrightarrow> opt_TheirDID (res_opts (ReplyToNested m opts s)) = opt_TheirDID opts) \<and>
     (opt_MsgID opts \<noteq> '''' \<and>
      \<not> (opt_ThreadID opts \<noteq> '''' \<and> opt_TheirDID opts \<noteq> '''' \<and> opt_MyDID opts \<noteq> '''') \<longrightarrow>
        (\<exists>r. store (res_state (ReplyToNested m opts s)) (opt_MsgID opts) = Some r \<and>
             (\<not> prefix ''metadata_'' (opt_MsgID opts) \<or> msgMetadata m = [] \<longrightarrow>
                store s (opt_MsgID opts) = Some r) \<and>
             (opt_ThreadID opts = '''' \<longrightarrow> opt_ThreadID (res_opts (ReplyToNested m opts s)) = ThreadID r) \<and>
             (opt_MyDID opts = '''' \<longrightarrow> opt_MyDID (res_opts (ReplyToNested m opts s)) = MyDID r) \<and>
             (opt_TheirDID opts = '''' \<longrightarrow> opt_TheirDID (res_opts (ReplyToNested m opts s)) = TheirDID r))) \<and>
     (opt_MsgID opts = '''' \<longrightarrow> res_opts (ReplyToNested m opts s) = opts) \<and>
     (opt_ThreadID opts \<noteq> '''' \<and> opt_TheirDID opts \<noteq> '''' \<and> opt_MyDID opts \<noteq> '''' \<longrightarrow>
        res_opts (ReplyToNested m opts s) = opts) \<and>
     opt_MsgID (res_opts (ReplyToNested m opts s)) = opt_MsgID opts"
proof
  let ?m1 = "fst (fillIfMissing m s)" and ?s1 = "snd (fillIfMissing m s)"
  let ?s2 = "snd (saveMetadata ?m1 ?s1)"
  let ?R = "ReplyToNested m opts s"
  assume ok: "res_err ?R = None"
  have sv: "fst (saveMetadata ?m1 ?s1) = None"
    using ok by (simp add: ReplyToNested_eq Let_def split: option.splits)
  have fl: "fst (fillNestedReplyOption opts ?s2) = None"
    using ok sv by (simp add: ReplyToNested_eq Let_def split: option.splits)
  have o: "res_opts ?R = snd (fillNestedReplyOption opts ?s2)"
    using sv fl by (simp add: ReplyToNested_eq Let_def)
  have st: "store (res_state ?R) = store ?s2"
    using sv fl by (simp add: ReplyToNested_eq Let_def)
  have p1: "res_msg ?R jsonThread = Some (JMap [(jsonParentThreadID, JStr (opt_ThreadID (res_opts ?R)))])"
    using sv fl by (simp add: ReplyToNested_eq Let_def)
  have p2: "calls (res_state ?R) =
       calls s @ [SendToDID (res_msg ?R) (opt_MyDID (res_opts ?R)) (opt_TheirDID (res_opts ?R))]"
    using sv fl by (simp add: ReplyToNested_eq Let_def)
  have p3: "msgID (res_msg ?R) = (if msgID m = '''' then next_uuid s else msgID m)"
    using sv fl fillIfMissing_msgID [of m s] by (simp add: ReplyToNested_eq Let_def msgID_upd_other)
  have p4: "(opt_ThreadID opts \<noteq> '''' \<longrightarrow> opt_ThreadID (res_opts ?R) = opt_ThreadID opts) \<and>
     (opt_MyDID opts \<noteq> '''' \<longrightarrow> opt_MyDID (res_opts ?R) = opt_MyDID opts) \<and>
     (opt_TheirDID opts \<noteq> '''' \<longrightarrow> opt_TheirDID (res_opts ?R) = opt_TheirDID opts)"
    unfolding o by (rule fillNestedReplyOption_kept)
  have p5: "opt_MsgID opts \<noteq> '''' \<and>
      \<not> (opt_ThreadID opts \<noteq> '''' \<and> opt_TheirDID opts \<noteq> '''' \<and> opt_MyDID opts \<noteq> '''') \<longrightarrow>
        (\<exists>r. store (res_state ?R) (opt_MsgID opts) = Some r \<and>
             (\<not> prefix ''metadata_'' (opt_MsgID opts) \<or> msgMetadata m = [] \<longrightarrow>
                store s (opt_MsgID opts) = Some r) \<and>
             (opt_ThreadID opts = '''' \<longrightarrow> opt_ThreadID (res_opts ?R) = ThreadID r) \<and>
             (opt_MyDID opts = '''' \<longrightarrow> opt_MyDID (res_opts ?R) = MyDID r) \<and>
             (opt_TheirDID opts = '''' \<longrightarrow> opt_TheirDID (res_opts ?R) = TheirDID r))"
  proof
    assume h: "opt_MsgID opts \<noteq> '''' \<and>
      \<not> (opt_ThreadID opts \<noteq> '''' \<and> opt_TheirDID opts \<noteq> '''' \<and> opt_MyDID opts \<noteq> '''')"
    from fillNestedReplyOption_filled [of opts ?s2] h fl
    obtain r where r: "store ?s2 (opt_MsgID opts) = Some r"
      "opt_ThreadID opts = '''' \<longrightarrow> opt_ThreadID (snd (fillNestedReplyOption opts ?s2)) = ThreadID r"
      "opt_MyDID opts = '''' \<longrightarrow> opt_MyDID (snd (fillNestedReplyOption opts ?s2)) = MyDID r"
      "opt_TheirDID opts = '''' \<longrightarrow> opt_TheirDID (snd (fillNestedReplyOption opts ?s2)) = TheirDID r"
      by blast
    have "\<not> prefix ''metadata_'' (opt_MsgID opts) \<or> msgMetadata m = [] \<longrightarrow>
            store s (opt_MsgID opts) = Some r"
    proof
      assume "\<not> prefix ''metadata_'' (opt_MsgID opts) \<or> msgMetadata m = []"
      then have "store ?s2 (opt_MsgID opts) = store ?s1 (opt_MsgID opts)"
        by (intro saveMetadata_store_other) (simp add: msgMetadata_fill)
      with r(1) show "store s (opt_MsgID opts) = Some r" by (simp add: fillIfMissing_state)
    qed
    with r show "\<exists>r. store (res_state ?R) (opt_MsgID opts) = Some r \<and>
             (\<not> prefix ''metadata_'' (opt_MsgID opts) \<or> msgMetadata m = [] \<longrightarrow>
                store s (opt_MsgID opts) = Some r) \<and>
             (opt_ThreadID opts = '''' \<longrightarrow> opt_ThreadID (res_opts ?R) = ThreadID r) \<and>
             (opt_MyDID opts = '''' \<longrightarrow> opt_MyDID (res_opts ?R) = MyDID r) \<and>
             (opt_TheirDID opts = '''' \<longrightarrow> opt_TheirDID (res_opts ?R) = TheirDID r)"
      unfolding o st by blast
  qed
  have p6: "opt_MsgID opts = '''' \<longrightarrow> res_opts ?R = opts"
    unfolding o by (simp add: fillNestedReplyOption_noref)
  have p7: "opt_ThreadID opts \<noteq> '''' \<and> opt_TheirDID opts \<noteq> '''' \<and> opt_MyDID opts \<noteq> '''' \<longrightarrow>
        res_opts ?R = opts"
    unfolding o by (simp add: fillNestedReplyOption_given)
  have p8: "opt_MsgID (res_opts ?R) = opt_MsgID opts"
    unfolding o by (rule fillNestedReplyOption_MsgID)
  from p1 p2 p3 p4 p5 p6 p7 p8
  show "res_msg ?R jsonThread = Some (JMap [(jsonParentThreadID, JStr (opt_ThreadID (res_opts ?R)))]) \<and>
     calls (res_state ?R) =
       calls s @ [SendToDID (res_msg ?R) (opt_MyDID (res_opts ?R)) (opt_TheirDID (res_opts ?R))] \<and>
     msgID (res_msg ?R) = (if msgID m = '''' then next_uuid s else msgID m) \<and>
     (opt_ThreadID opts \<noteq> '''' \<longrightarrow> opt_ThreadID (res_opts ?R) = opt_ThreadID opts) \<and>
     (opt_MyDID opts \<noteq> '''' \<longrightarrow> opt_MyDID (res_opts ?R) = opt_MyDID opts) \<and>
     (opt_TheirDID opts \<noteq> '''' \<longrightarrow> opt_TheirDID (res_opts ?R) = opt_TheirDID opts) \<and>
     (opt_MsgID opts \<noteq> '''' \<and>
      \<not> (opt_ThreadID opts \<noteq> '''' \<and> opt_TheirDID opts \<noteq> '''' \<and> opt_MyDID opts \<noteq> '''') \<longrightarrow>
        (\<exists>r. store (res_state ?R) (opt_MsgID opts) = Some r \<and>
             (\<not> prefix ''metadata_'' (opt_MsgID opts) \<or> msgMetadata m = [] \<longrightarrow>
                store s (opt_MsgID opts) = Some r) \<and>
             (opt_ThreadID opts = '''' \<longrightarrow> opt_ThreadID (res_opts ?R) = ThreadID r) \<and>
             (opt_MyDID opts = '''' \<longrightarrow> opt_MyDID (res_opts ?R) = MyDID r) \<and>
             (opt_TheirDID opts = '''' \<longrightarrow> opt_TheirDID (res_opts ?R) = TheirDID r))) \<and>
     (opt_MsgID opts = '''' \<longrightarrow> res_opts ?R = opts) \<and>
     (opt_ThreadID opts \<noteq> '''' \<and> opt_TheirDID opts \<noteq> '''' \<and> opt_MyDID opts \<noteq> '''' \<longrightarrow>
        res_opts ?R = opts) \<and>
     opt_MsgID (res_opts ?R) = opt_MsgID opts"
    by blast
qed

theorem ReplyToNested_thread_witness:
  "res_err (ReplyToNested ex_reply ex_opts ex_stored) = None \<and>
   opt_MsgID ex_opts = ''m-1'' \<and> opt_ThreadID ex_opts = '''' \<and>
   store ex_stored ''m-1'' = Some ex_record \<and>
   res_msg (ReplyToNested ex_reply ex_opts ex_stored) jsonThread =
     Some (JMap [(jsonParentThreadID, JStr ''t-1'')]) \<and>
   calls (res_state (ReplyToNested ex_reply ex_opts ex_stored)) =
     [SendToDID (res_msg (ReplyToNested ex_reply ex_opts ex_stored)) ''did:bob'' ''did:alice''] \<and>
   msgID (res_msg (ReplyToNested ex_reply ex_opts ex_stored)) = next_uuid ex_stored \<and>
   res_err (ReplyToNested ex_reply ex_opts_thread ex_stored) = None \<and>
   res_opts (ReplyToNested ex_reply ex_opts_thread ex_stored) =
     \<lparr>opt_ThreadID = ''t-9'', opt_TheirDID = ''did:carol'', opt_MyDID = ''did:bob'', opt_MsgID = ''m-1''\<rparr> \<and>
   res_msg (ReplyToNested ex_reply ex_opts_thread ex_stored) jsonThread =
     Some (JMap [(jsonParentThreadID, JStr ''t-9'')]) \<and>
   res_err (ReplyToNested ex_reply ex_opts_noref ex_stored) = None \<and>
   opt_MsgID ex_opts_noref = '''' \<and>
   res_opts (ReplyToNested ex_reply ex_opts_noref ex_stored) = ex_opts_noref \<and>
   res_msg (ReplyToNested ex_reply ex_opts_noref ex_stored) jsonThread =
     Some (JMap [(jsonParentThreadID, JStr '''')]) \<and>
   calls (res_state (ReplyToNested ex_reply ex_opts_noref ex_stored)) =
     [SendToDID (res_msg (ReplyToNested ex_reply ex_opts_noref ex_stored)) ''did:bob'' ''did:alice'']"
proof -
  have a: "opt_MsgID ex_opts = ''m-1''" "opt_ThreadID ex_opts = ''''" "opt_MyDID ex_opts = ''''"
    "opt_TheirDID ex_opts = ''''" "msgMetadata ex_reply = []" "msgID ex_reply = ''''"
    by (simp_all add: ex_opts_def msgMetadata_def msgID_def ex_reply_def)
  have b: "store ex_stored ''m-1'' = Some ex_record" "calls ex_stored = []"
    by (simp_all add: ex_stored_def ex_state_def)
  have c: "fst (saveMetadata (fst (fillIfMissing ex_reply ex_stored)) (snd (fillIfMissing ex_reply ex_stored))) = None"
    by (intro saveMetadata_ok fillIfMissing_nonempty) (simp add: msgMetadata_fill a)
  have d: "snd (saveMetadata (fst (fillIfMissing ex_reply ex_stored)) (snd (fillIfMissing ex_reply ex_stored))) =
           snd (fillIfMissing ex_reply ex_stored)"
    by (simp add: saveMetadata_def msgMetadata_fill a)
  have e: "res_err (ReplyToNested ex_reply ex_opts ex_stored) = None"
    using a b c d
    by (simp add: ReplyToNested_eq Let_def fillNestedReplyOption_def getRecord_eq fillIfMissing_state
          ex_stored_def ex_state_def)
  have a2: "opt_MsgID ex_opts_thread = ''m-1''" "opt_ThreadID ex_opts_thread = ''t-9''"
    "opt_MyDID ex_opts_thread = ''''" "opt_TheirDID ex_opts_thread = ''did:carol''"
    by (simp_all add: ex_opts_thread_def)
  have e2: "res_err (ReplyToNested ex_reply ex_opts_thread ex_stored) = None"
    using a a2 b c d
    by (simp add: ReplyToNested_eq Let_def fillNestedReplyOption_def getRecord_eq fillIfMissing_state
          ex_stored_def ex_state_def)
  have a3: "opt_MsgID ex_opts_noref = ''''" "opt_MyDID ex_opts_noref = ''did:bob''"
    "opt_TheirDID ex_opts_noref = ''did:alice''" "opt_ThreadID ex_opts_noref = ''''"
    by (simp_all add: ex_opts_noref_def)
  have e3: "res_err (ReplyToNested ex_reply ex_opts_noref ex_stored) = None"
    using a3 c by (simp add: ReplyToNested_eq Let_def fillNestedReplyOption_noref ex_stored_def ex_state_def)
  have first: "res_msg (ReplyToNested ex_reply ex_opts ex_stored) jsonThread =
       Some (JMap [(jsonParentThreadID, JStr ''t-1'')]) \<and>
     calls (res_state (ReplyToNested ex_reply ex_opts ex_stored)) =
       [SendToDID (res_msg (ReplyToNested ex_reply ex_opts ex_stored)) ''did:bob'' ''did:alice''] \<and>
     msgID (res_msg (ReplyToNested ex_reply ex_opts ex_stored)) = next_uuid ex_stored"
    using ReplyToNested_thread [of ex_reply ex_opts ex_stored] a b e
    by (auto simp: ex_record_def)
  have second: "res_opts (ReplyToNested ex_reply ex_opts_thread ex_stored) =
       \<lparr>opt_ThreadID = ''t-9'', opt_TheirDID = ''did:carol'', opt_MyDID = ''did:bob'', opt_MsgID = ''m-1''\<rparr> \<and>
     res_msg (ReplyToNested ex_reply ex_opts_thread ex_stored) jsonThread =
       Some (JMap [(jsonParentThreadID, JStr ''t-9'')])"
    using ReplyToNested_thread [of ex_reply ex_opts_thread ex_stored] a a2 b e2
    by (auto simp: ex_record_def)
  have third: "res_opts (ReplyToNested ex_reply ex_opts_noref ex_stored) = ex_opts_noref \<and>
     res_msg (ReplyToNested ex_reply ex_opts_noref ex_stored) jsonThread =
       Some (JMap [(jsonParentThreadID, JStr '''')]) \<and>
     calls (res_state (ReplyToNested ex_reply ex_opts_noref ex_stored)) =
       [SendToDID (res_msg (ReplyToNested ex_reply ex_opts_noref ex_stored)) ''did:bob'' ''did:alice'']"
    using ReplyToNested_thread [of ex_reply ex_opts_noref ex_stored] a3 b e3 by simp
  from a a3 b e e2 e3 first second third show ?thesis by simp
qed

section \<open>What reaches the dispatcher\<close>

lemma outboundID_I:
  assumes "\<And>k. k \<noteq> jsonThread \<Longrightarrow> m' k = fst (fillIfMissing m s) k"
    and "calls s' = calls s \<or> (\<exists>c. calls s' = calls s @ [c] \<and> dispatchedMsg c = m')"
  shows "outboundID m s m' s'"
proof -
  have j: "m' jsonID = fst (fillIfMissing m s) jsonID"
    by (rule assms(1)) simp
  have i: "msgID m' = msgID (fst (fillIfMissing m s))"
    by (simp add: msgID_def j)
  have c: "\<exists>cs. calls s' = calls s @ cs \<and> length cs \<le> 1 \<and> (\<forall>c\<in>set cs. dispatchedMsg c = m')"
  proof (rule disjE [OF assms(2)])
    assume "calls s' = calls s"
    then show ?thesis by (intro exI[of _ "[]"]) simp
  next
    assume "\<exists>c. calls s' = calls s @ [c] \<and> dispatchedMsg c = m'"
    then obtain c where "calls s' = calls s @ [c]" "dispatchedMsg c = m'" by blast
    then show ?thesis by (intro exI[of _ "[c]"]) simp
  qed
  show ?thesis
    unfolding outboundID_def
    using i j c fillIfMissing_nonempty [of m s] fillIfMissing_msgID [of m s] fillIfMissing_id [of m s]
    by simp
qed

lemma Send_outboundID:
  "outboundID m s (res_msg (Send m myDID theirDID s)) (res_state (Send m myDID theirDID s))"
  by (rule outboundID_I)
     (simp_all add: Send_eq Let_def saveMetadata_calls fillIfMissing_state dispatchedMsg_def
        split: option.splits)

lemma SendToDestination_outboundID:
  "outboundID m s (res_msg (SendToDestination m sender destination s))
     (res_state (SendToDestination m sender destination s))"
  by (rule outboundID_I)
     (simp_all add: SendToDestination_eq Let_def saveMetadata_calls fillIfMissing_state dispatchedMsg_def
        split: option.splits)

lemma ReplyTo_outboundID:
  "outboundID m s (res_msg (ReplyTo k m s)) (res_state (ReplyTo k m s))"
  by (rule outboundID_I)
     (simp_all add: ReplyTo_eq Let_def saveMetadata_calls fillIfMissing_state dispatchedMsg_def
        split: option.splits sum.splits)

lemma ReplyToNested_outboundID:
  "outboundID m s (res_msg (ReplyToNested m opts s)) (res_state (ReplyToNested m opts s))"
  by (rule outboundID_I)
     (simp_all add: ReplyToNested_eq Let_def saveMetadata_calls fillIfMissing_state dispatchedMsg_def
        split: option.splits)

text \<open>
  Claim C7. In each of the four send operations the message keeps a non-empty \<open>@id\<close>,
  gets a fresh UUID in place of an absent or empty one, and so has a non-empty \<open>@id\<close>
  when it is handed to the dispatcher.
\<close>

theorem outbound_id_nonempty:
  "outboundID m s (res_msg (Send m myDID theirDID s)) (res_state (Send m myDID theirDID s)) \<and>
   outboundID m s (res_msg (SendToDestination m sender destination s))
     (res_state (SendToDestination m sender destination s)) \<and>
   outboundID m s (res_msg (ReplyTo k m s)) (res_state (ReplyTo k m s)) \<and>
   outboundID m s (res_msg (ReplyToNested m opts s)) (res_state (ReplyToNested m opts s))"
  using Send_outboundID SendToDestination_outboundID ReplyTo_outboundID ReplyToNested_outboundID
  by blast

theorem outbound_id_nonempty_witness:
  "msgID ex_inbound = ''m-1'' \<and>
   msgID (res_msg (Send ex_inbound ''did:bob'' ''did:alice'' ex_stored)) = ''m-1'' \<and>
   res_msg (Send ex_inbound ''did:bob'' ''did:alice'' ex_stored) jsonID = Some (JStr ''m-1'') \<and>
   msgID (res_msg (SendToDestination ex_inbound ''key'' None ex_stored)) = ''m-1'' \<and>
   msgID (res_msg (ReplyTo ''m-1'' ex_inbound ex_stored)) = ''m-1'' \<and>
   msgID (res_msg (ReplyToNested ex_inbound ex_opts ex_stored)) = ''m-1'' \<and>
   (\<exists>cs. calls (res_state (Send ex_inbound ''did:bob'' ''did:alice'' ex_stored)) = cs \<and> length cs \<le> 1 \<and>
      (\<forall>c\<in>set cs. msgID (dispatchedMsg c) = ''m-1''))"
proof -
  have a: "msgID ex_inbound = ''m-1''" "ex_inbound jsonID = Some (JStr ''m-1'')"
    by (simp_all add: msgID_def ex_inbound_def)
  have b: "calls ex_stored = []" by (simp add: ex_stored_def ex_state_def)
  show ?thesis
    using outbound_id_nonempty [of ex_inbound ex_stored "''did:bob''" "''did:alice''" "''key''" None "''m-1''" ex_opts]
      a b
    by (auto simp: outboundID_def)
qed

section \<open>Metadata\<close>

lemma threadOf_fill:
  "threadOf (fst (fillIfMissing m s)) =
     (if msgThread m jsonThreadID \<noteq> '''' then msgThread m jsonThreadID else msgID (fst (fillIfMissing m s)))"
  by (simp add: threadOf_def msgThread_fill)

lemma saveMetadata_kept:
  assumes "msgID m1 \<noteq> ''''" "msgMetadata m1 \<noteq> []" "fst (saveMetadata m1 s1) = None"
  shows "store (snd (saveMetadata m1 s1)) (metadataKey (threadOf m1)) =
           Some (emptyRecord\<lparr>Metadata := msgMetadata m1\<rparr>)"
  using assms by (simp add: saveMetadata_eq split: option.splits)

text \<open>
  Claim C5, as stated, fails: Bob sends a message that carries metadata, and the
  message handed to the dispatcher still has the key \<open>_internal_metadata\<close>.
\<close>

theorem metadata_stripped_counterexample:
  "\<not> (\<forall>c\<in>set (calls (res_state (Send ex_meta ''did:bob'' ''did:alice'' ex_state))).
         dispatchedMsg c jsonMetadata = None)"
proof -
  have a: "msgID ex_meta \<noteq> ''''" by (simp add: msgID_def ex_meta_def)
  have "fst (saveMetadata (fst (fillIfMissing ex_meta ex_state)) (snd (fillIfMissing ex_meta ex_state))) = None"
    using a by (intro saveMetadata_ok fillIfMissing_nonempty) (simp add: fillIfMissing_state ex_state_def)
  then have "calls (res_state (Send ex_meta ''did:bob'' ''did:alice'' ex_state)) =
      [SendToDID (ex_meta(jsonThread \<mapsto> JMap [(jsonThreadID, JStr (msgID ex_meta))])) ''did:bob'' ''did:alice'']"
    using a by (simp add: Send_eq Let_def fillIfMissing_id ex_state_def)
  then show ?thesis by (simp add: dispatchedMsg_def ex_meta_def)
qed

text \<open>
  Claim C5, amended. When the message carries a non-empty metadata map, each of the
  four send operations that succeeds has filed the metadata in the store under the
  key of the message's thread, and the message it handed to the dispatcher still
  carries the metadata under \<open>_internal_metadata\<close>: the Messenger does not strip it.
  The thread is the one the message has when the metadata is filed: for \<open>Send\<close>,
  \<open>SendToDestination\<close> and \<open>ReplyToNested\<close> the caller's \<open>~thread.thid\<close> or else the
  \<open>@id\<close>, for \<open>ReplyTo\<close> the thread of the record replied to.
\<close>

theorem metadata_persisted_and_kept:
  "msgMetadata m \<noteq> [] \<longrightarrow>
   (res_err (Send m myDID theirDID s) = None \<longrightarrow>
      metadataKept m s
        (if msgThread m jsonThreadID \<noteq> '''' then msgThread m jsonThreadID
         else msgID (res_msg (Send m myDID theirDID s)))
        (res_msg (Send m myDID theirDID s)) (res_state (Send m myDID theirDID s))) \<and>
   (res_err (SendToDestination m sender destination s) = None \<longrightarrow>
      metadataKept m s
        (if msgThread m jsonThreadID \<noteq> '''' then msgThread m jsonThreadID
         else msgID (res_msg (SendToDestination m sender destination s)))
        (res_msg (SendToDestination m sender destination s))
        (res_state (SendToDestination m sender destination s))) \<and>
   (res_err (ReplyToNested m opts s) = None \<longrightarrow>
      metadataKept m s
        (if msgThread m jsonThreadID \<noteq> '''' then msgThread m jsonThreadID
         else msgID (res_msg (ReplyToNested m opts s)))
        (res_msg (ReplyToNested m opts s)) (res_state (ReplyToNested m opts s))) \<and>
   (res_err (ReplyTo k m s) = None \<longrightarrow>
      (\<exists>r. store s k = Some r \<and>
           metadataKept m s
             (if ThreadID r \<noteq> '''' then ThreadID r else msgID (res_msg (ReplyTo k m s)))
             (res_msg (ReplyTo k m s)) (res_state (ReplyTo k m s))))"
proof (intro impI conjI)
  let ?m1 = "fst (fillIfMissing m s)" and ?s1 = "snd (fillIfMissing m s)"
  let ?s2 = "snd (saveMetadata ?m1 ?s1)"
  assume md: "msgMetadata m \<noteq> []"
  have ne: "msgID ?m1 \<noteq> ''''" by (rule fillIfMissing_nonempty)
  have md1: "msgMetadata ?m1 = msgMetadata m" by (rule msgMetadata_fill)
  have j1: "?m1 jsonMetadata = m jsonMetadata" by (simp add: fillIfMissing_other)
  {
    assume sv: "fst (saveMetadata ?m1 ?s1) = None"
    have "store ?s2 (metadataKey (threadOf ?m1)) = Some (emptyRecord\<lparr>Metadata := msgMetadata m\<rparr>)"
      using saveMetadata_kept [OF ne _ sv] md md1 by simp
  }
  note kept = this
  {
    assume ok: "res_err (Send m myDID theirDID s) = None"
    then have sv: "fst (saveMetadata ?m1 ?s1) = None"
      by (simp add: Send_eq Let_def split: option.splits)
    show "metadataKept m s
        (if msgThread m jsonThreadID \<noteq> '''' then msgThread m jsonThreadID
         else msgID (res_msg (Send m myDID theirDID s)))
        (res_msg (Send m myDID theirDID s)) (res_state (Send m myDID theirDID s))"
      using sv kept [OF sv] md1 j1
      by (cases "msgThread m jsonThreadID = ''''")
         (simp_all add: metadataKept_def Send_eq Let_def threadOf_fill msgID_upd_other
            msgMetadata_upd_other dispatchedMsg_def)
  }
  {
    assume ok: "res_err (SendToDestination m sender destination s) = None"
    then have sv: "fst (saveMetadata ?m1 ?s1) = None"
      by (simp add: SendToDestination_eq Let_def split: option.splits)
    show "metadataKept m s
        (if msgThread m jsonThreadID \<noteq> '''' then msgThread m jsonThreadID
         else msgID (res_msg (SendToDestination m sender destination s)))
        (res_msg (SendToDestination m sender destination s))
        (res_state (SendToDestination m sender destination s))"
      using sv kept [OF sv] md1 j1
      by (cases "msgThread m jsonThreadID = ''''")
         (simp_all add: metadataKept_def SendToDestination_eq Let_def threadOf_fill msgID_upd_other
            msgMetadata_upd_other dispatchedMsg_def)
  }
  {
    assume ok: "res_err (ReplyToNested m opts s) = None"
    then have sv: "fst (saveMetadata ?m1 ?s1) = None"
      by (simp add: ReplyToNested_eq Let_def split: option.splits)
    have fl: "fst (fillNestedReplyOption opts ?s2) = None"
      using ok sv by (simp add: ReplyToNested_eq Let_def split: option.splits)
    show "metadataKept m s
        (if msgThread m jsonThreadID \<noteq> '''' then msgThread m jsonThreadID
         else msgID (res_msg (ReplyToNested m opts s)))
        (res_msg (ReplyToNested m opts s)) (res_state (ReplyToNested m opts s))"
      using sv fl kept [OF sv] md1 j1
      by (cases "msgThread m jsonThreadID = ''''")
         (simp_all add: metadataKept_def ReplyToNested_eq Let_def threadOf_fill msgID_upd_other
            msgMetadata_upd_other dispatchedMsg_def)
  }
  {
    assume ok: "res_err (ReplyTo k m s) = None"
    then obtain r where gr: "getRecord k ?s1 = Inr r"
      by (cases "getRecord k ?s1") (simp_all add: ReplyTo_eq Let_def)
    then have st: "store s k = Some r"
      by (simp add: getRecord_eq fillIfMissing_state split: option.splits)
    let ?m2 = "?m1(jsonThread \<mapsto> JMap (replyThread r))"
    have sv: "fst (saveMetadata ?m2 ?s1) = None"
      using ok gr by (simp add: ReplyTo_eq Let_def split: option.splits)
    have ne2: "msgID ?m2 \<noteq> ''''" using ne by (simp add: msgID_upd_other)
    have md2: "msgMetadata ?m2 = msgMetadata m" using md1 by (simp add: msgMetadata_upd_other)
    have th2: "threadOf ?m2 = (if ThreadID r \<noteq> '''' then ThreadID r else msgID ?m1)"
      by (simp add: threadOf_def msgThread_def msgID_upd_other replyThread_thid)
    have k2: "store (snd (saveMetadata ?m2 ?s1)) (metadataKey (threadOf ?m2)) =
                Some (emptyRecord\<lparr>Metadata := msgMetadata m\<rparr>)"
      using saveMetadata_kept [OF ne2 _ sv] md md2 by simp
    have "metadataKept m s
             (if ThreadID r \<noteq> '''' then ThreadID r else msgID (res_msg (ReplyTo k m s)))
             (res_msg (ReplyTo k m s)) (res_state (ReplyTo k m s))"
      using sv gr k2 md2 j1 th2
      by (cases "ThreadID r = ''''")
         (simp_all add: metadataKept_def ReplyTo_eq Let_def msgID_upd_other dispatchedMsg_def)
    with st show "\<exists>r. store s k = Some r \<and>
           metadataKept m s
             (if ThreadID r \<noteq> '''' then ThreadID r else msgID (res_msg (ReplyTo k m s)))
             (res_msg (ReplyTo k m s)) (res_state (ReplyTo k m s))"
      by blast
  }
qed

theorem metadata_persisted_and_kept_witness:
  "msgMetadata ex_meta = [(''key'', JStr ''value'')] \<and>
   res_err (Send ex_meta ''did:bob'' ''did:alice'' ex_stored) = None \<and>
   res_err (SendToDestination ex_meta ''key'' None ex_stored) = None \<and>
   res_err (ReplyToNested ex_meta ex_opts ex_stored) = None \<and>
   res_err (ReplyTo ''m-1'' ex_meta ex_stored) = None \<and>
   store (res_state (Send ex_meta ''did:bob'' ''did:alice'' ex_stored)) ''metadata_m-2'' =
     Some (emptyRecord\<lparr>Metadata := [(''key'', JStr ''value'')]\<rparr>) \<and>
   res_msg (Send ex_meta ''did:bob'' ''did:alice'' ex_stored) jsonMetadata =
     Some (JMap [(''key'', JStr ''value'')]) \<and>
   store (res_state (SendToDestination ex_meta ''key'' None ex_stored)) ''metadata_m-2'' =
     Some (emptyRecord\<lparr>Metadata := [(''key'', JStr ''value'')]\<rparr>) \<and>
   store (res_state (ReplyToNested ex_meta ex_opts ex_stored)) ''metadata_m-2'' =
     Some (emptyRecord\<lparr>Metadata := [(''key'', JStr ''value'')]\<rparr>) \<and>
   store (res_state (ReplyTo ''m-1'' ex_meta ex_stored)) ''metadata_t-1'' =
     Some (emptyRecord\<lparr>Metadata := [(''key'', JStr ''value'')]\<rparr>) \<and>
   res_msg (ReplyTo ''m-1'' ex_meta ex_stored) jsonMetadata = Some (JMap [(''key'', JStr ''value'')])"
proof -
  let ?m1 = "fst (fillIfMissing ex_meta ex_stored)" and ?s1 = "snd (fillIfMissing ex_meta ex_stored)"
  have a: "msgMetadata ex_meta = [(''key'', JStr ''value'')]" "msgID ex_meta = ''m-2''"
    "msgThread ex_meta jsonThreadID = ''''" "ex_meta jsonMetadata = Some (JMap [(''key'', JStr ''value'')])"
    by (simp_all add: msgMetadata_def msgID_def msgThread_def ex_meta_def)
  have b: "put_err ex_stored = None" "send_err ex_stored = None" "get_err ex_stored = None"
    "store ex_stored ''m-1'' = Some ex_record"
    by (simp_all add: ex_stored_def ex_state_def)
  have f: "?m1 = ex_meta" "?s1 = ex_stored" using a by (simp_all add: fillIfMissing_def)
  have sv: "fst (saveMetadata ex_meta ex_stored) = None"
    using a b by (intro saveMetadata_ok) simp_all
  have o: "opt_MsgID ex_opts = ''m-1''" "opt_ThreadID ex_opts = ''''"
    by (simp_all add: ex_opts_def)
  have g: "get_err (snd (saveMetadata ex_meta ex_stored)) = None"
    "store (snd (saveMetadata ex_meta ex_stored)) ''m-1'' = Some ex_record"
    using b by (simp_all add: saveMetadata_errs saveMetadata_store_other)
  have e1: "res_err (Send ex_meta ''did:bob'' ''did:alice'' ex_stored) = None"
    using sv b f by (simp add: Send_eq Let_def)
  have e2: "res_err (SendToDestination ex_meta ''key'' None ex_stored) = None"
    using sv b f by (simp add: SendToDestination_eq Let_def)
  have e3: "res_err (ReplyToNested ex_meta ex_opts ex_stored) = None"
    using sv b f g o by (simp add: ReplyToNested_eq Let_def fillNestedReplyOption_def getRecord_eq)
  have sv2: "fst (saveMetadata (ex_meta(jsonThread \<mapsto> JMap (replyThread ex_record))) ex_stored) = None"
    using a b by (intro saveMetadata_ok) (simp_all add: msgID_upd_other)
  have e4: "res_err (ReplyTo ''m-1'' ex_meta ex_stored) = None"
    using sv2 b f by (simp add: ReplyTo_eq Let_def getRecord_eq)
  have i: "msgID (res_msg (Send ex_meta ''did:bob'' ''did:alice'' ex_stored)) = ''m-2''"
    "msgID (res_msg (SendToDestination ex_meta ''key'' None ex_stored)) = ''m-2''"
    "msgID (res_msg (ReplyToNested ex_meta ex_opts ex_stored)) = ''m-2''"
    using Send_outboundID [of ex_meta ex_stored "''did:bob''" "''did:alice''"]
      SendToDestination_outboundID [of ex_meta ex_stored "''key''" None]
      ReplyToNested_outboundID [of ex_meta ex_stored ex_opts] a
    by (simp_all add: outboundID_def)
  show ?thesis
    using metadata_persisted_and_kept [of ex_meta "''did:bob''" "''did:alice''" ex_stored "''key''" None
        ex_opts "''m-1''"] a b e1 e2 e3 e4 i
    by (simp add: metadataKept_def metadataKey_def ex_record_def)
qed

section \<open>The life of a message record\<close>

lemma populateMetadata_msgID: "populateMetadata th m s = Inr m' \<Longrightarrow> msgID m' = msgID m"
  by (auto simp: populateMetadata_def msgID_upd_other split: sum.splits if_splits)

lemma populateMetadata_thread: "populateMetadata th m s = Inr m' \<Longrightarrow> m' jsonThread = m jsonThread"
  by (auto simp: populateMetadata_def split: sum.splits if_splits)

lemma populateMetadata_ok: "get_err s = None \<Longrightarrow> \<exists>m'. populateMetadata th m s = Inr m'"
  by (simp add: populateMetadata_def getRecord_eq split: option.splits)

lemma HandleInbound_ok:
  assumes "msgID m \<noteq> ''''" "get_err s = None" "put_err s = None"
  shows "res_err (HandleInbound m myDID theirDID s) = None"
proof -
  obtain m' where "populateMetadata (threadOf m) m s = Inr m'"
    using populateMetadata_ok [OF assms(2)] by blast
  with assms show ?thesis
    by (simp add: HandleInbound_def msgThreadID_ok saveRecord_def store_Put_def)
qed

lemma HandleInbound_stored:
  assumes "msgID m \<noteq> ''''" "res_err (HandleInbound m myDID theirDID s) = None"
  shows "store (res_state (HandleInbound m myDID theirDID s)) (msgID m) =
           Some \<lparr>MyDID = myDID, TheirDID = theirDID, ThreadID = threadOf m,
                 ParentThreadID = msgParentThreadID m, Metadata = []\<rparr>"
proof (cases "populateMetadata (threadOf m) m s")
  case (Inl e)
  with assms show ?thesis by (simp add: HandleInbound_def msgThreadID_ok)
next
  case (Inr m')
  have i: "msgID m' = msgID m" using Inr by (rule populateMetadata_msgID)
  have p: "msgParentThreadID m' = msgParentThreadID m"
    using populateMetadata_thread [OF Inr] by (simp add: msgParentThreadID_def msgThread_def)
  from assms Inr i p show ?thesis
    by (simp add: HandleInbound_def msgThreadID_ok saveRecord_def store_Put_def split: option.splits)
qed

lemma HandleInbound_store_other:
  assumes "msgID m \<noteq> k"
  shows "store (res_state (HandleInbound m myDID theirDID s)) k = store s k"
proof (cases "msgID m = ''''")
  case True
  then show ?thesis by (simp add: HandleInbound_def)
next
  case False
  show ?thesis
  proof (cases "populateMetadata (threadOf m) m s")
    case (Inl e)
    with False show ?thesis by (simp add: HandleInbound_def msgThreadID_ok)
  next
    case (Inr m')
    have "msgID m' = msgID m" using Inr by (rule populateMetadata_msgID)
    with False Inr assms show ?thesis
      by (simp add: HandleInbound_def msgThreadID_ok saveRecord_def store_Put_def split: option.splits)
  qed
qed

lemma Send_store_other:
  "\<not> prefix ''metadata_'' k \<Longrightarrow> store (res_state (Send m myDID theirDID s)) k = store s k"
  by (simp add: Send_eq Let_def saveMetadata_store_other fillIfMissing_state split: option.splits)

lemma SendToDestination_store_other:
  "\<not> prefix ''metadata_'' k \<Longrightarrow>
   store (res_state (SendToDestination m sender destination s)) k = store s k"
  by (simp add: SendToDestination_eq Let_def saveMetadata_store_other fillIfMissing_state
        split: option.splits)

lemma ReplyTo_store_other:
  "\<not> prefix ''metadata_'' k \<Longrightarrow> store (res_state (ReplyTo k' m s)) k = store s k"
  by (simp add: ReplyTo_eq Let_def saveMetadata_store_other fillIfMissing_state
        split: option.splits sum.splits)

lemma ReplyToNested_store_other:
  "\<not> prefix ''metadata_'' k \<Longrightarrow> store (res_state (ReplyToNested m opts s)) k = store s k"
  by (simp add: ReplyToNested_eq Let_def saveMetadata_store_other fillIfMissing_state
        split: option.splits)

lemma exec_store_other:
  "\<not> prefix ''metadata_'' k \<Longrightarrow> \<not> isHandleInboundFor k c \<Longrightarrow> store (exec c s) k = store s k"
  by (cases c)
     (simp_all add: isHandleInboundFor_def HandleInbound_store_other Send_store_other
        SendToDestination_store_other ReplyTo_store_other ReplyToNested_store_other)

lemma exec_step_store_other:
  "\<not> prefix ''metadata_'' k \<Longrightarrow> \<not> isHandleInboundFor k (snd x) \<Longrightarrow> store (exec_step x s) k = store s k"
proof -
  assume a: "\<not> prefix ''metadata_'' k" "\<not> isHandleInboundFor k (snd x)"
  obtain f c where x: "x = (f, c)" by (cases x)
  obtain g p d where f: "f = (g, p, d)" by (cases f)
  from a x f show ?thesis by (simp add: exec_store_other)
qed

lemma run_store_other:
  "\<not> prefix ''metadata_'' k \<Longrightarrow> \<forall>x\<in>set steps. \<not> isHandleInboundFor k (snd x) \<Longrightarrow>
   store (run steps s) k = store s k"
  by (induction steps arbitrary: s) (simp_all add: exec_step_store_other)

lemma ex_inbound_plain:
  "msgID ex_inbound = ''m-1''" "threadOf ex_inbound = ''t-1''" "msgParentThreadID ex_inbound = ''p-1''"
  by (simp_all add: msgID_def threadOf_def msgThread_def msgParentThreadID_def ex_inbound_def)

lemma ex_created:
  "res_err (HandleInbound ex_inbound ''did:bob'' ''did:alice'' ex_state) = None"
  "store (res_state (HandleInbound ex_inbound ''did:bob'' ''did:alice'' ex_state)) ''m-1'' = Some ex_record"
proof -
  show ok: "res_err (HandleInbound ex_inbound ''did:bob'' ''did:alice'' ex_state) = None"
    by (rule HandleInbound_ok) (simp_all add: ex_inbound_plain ex_state_def)
  show "store (res_state (HandleInbound ex_inbound ''did:bob'' ''did:alice'' ex_state)) ''m-1'' = Some ex_record"
    using HandleInbound_stored [OF _ ok] by (simp add: ex_inbound_plain ex_record_def)
qed

text \<open>
  Claim C6, as stated, fails: after Bob has filed the record of \<open>m-1\<close>, a second
  inbound message with the same \<open>@id\<close> replaces it.
\<close>

theorem record_immutable_counterexample:
  "res_err (HandleInbound ex_inbound ''did:bob'' ''did:alice'' ex_state) = None \<and>
   msgID ex_inbound = ''m-1'' \<and>
   store (run [(ex_no_faults, OpHandleInbound ex_resent ''did:carol'' ''did:dave'')]
            (res_state (HandleInbound ex_inbound ''did:bob'' ''did:alice'' ex_state))) ''m-1''
     \<noteq> store (res_state (HandleInbound ex_inbound ''did:bob'' ''did:alice'' ex_state)) ''m-1''"
proof -
  let ?s1 = "res_state (HandleInbound ex_inbound ''did:bob'' ''did:alice'' ex_state)"
  let ?s1' = "?s1\<lparr>get_err := None, put_err := None, send_err := None\<rparr>"
  have a: "msgID ex_resent = ''m-1''" "threadOf ex_resent = ''t-2''"
    by (simp_all add: msgID_def threadOf_def msgThread_def ex_resent_def)
  have ok: "res_err (HandleInbound ex_resent ''did:carol'' ''did:dave'' ?s1') = None"
    by (rule HandleInbound_ok) (simp_all add: a)
  have "store (res_state (HandleInbound ex_resent ''did:carol'' ''did:dave'' ?s1')) ''m-1'' =
          Some \<lparr>MyDID = ''did:carol'', TheirDID = ''did:dave'', ThreadID = ''t-2'',
                ParentThreadID = msgParentThreadID ex_resent, Metadata = []\<rparr>"
    using HandleInbound_stored [OF _ ok] a by simp
  then show ?thesis
    using ex_created ex_inbound_plain by (simp add: ex_no_faults_def ex_record_def)
qed

text \<open>
  The store has one key space: the metadata of thread \<open>m-2\<close> is filed under
  \<open>metadata_m-2\<close>, which is also where the record of a message with that \<open>@id\<close> lives.
\<close>

lemma metadata_key_collision:
  "store (res_state (Send ex_meta ''did:bob'' ''did:alice''
            (res_state (HandleInbound ex_colliding ''did:bob'' ''did:alice'' ex_state)))) ''metadata_m-2''
     \<noteq> store (res_state (HandleInbound ex_colliding ''did:bob'' ''did:alice'' ex_state)) ''metadata_m-2''"
proof -
  let ?s1 = "res_state (HandleInbound ex_colliding ''did:bob'' ''did:alice'' ex_state)"
  have a: "msgID ex_colliding = ''metadata_m-2''"
    by (simp add: msgID_def ex_colliding_def)
  have ok: "res_err (HandleInbound ex_colliding ''did:bob'' ''did:alice'' ex_state) = None"
    by (rule HandleInbound_ok) (simp_all add: a ex_state_def)
  have r: "store ?s1 ''metadata_m-2'' =
      Some \<lparr>MyDID = ''did:bob'', TheirDID = ''did:alice'', ThreadID = threadOf ex_colliding,
            ParentThreadID = msgParentThreadID ex_colliding, Metadata = []\<rparr>"
    using HandleInbound_stored [OF _ ok] a by simp
  have p: "put_err ?s1 = None"
    using a by (simp add: HandleInbound_def populateMetadata_def getRecord_eq saveRecord_def
        store_Put_def msgThreadID_ok ex_state_def)
  have b: "msgID ex_meta = ''m-2''" "threadOf ex_meta = ''m-2''" "msgMetadata ex_meta = [(''key'', JStr ''value'')]"
    by (simp_all add: msgID_def threadOf_def msgThread_def msgMetadata_def ex_meta_def)
  have sv: "fst (saveMetadata ex_meta ?s1) = None"
    using p b by (intro saveMetadata_ok) simp_all
  have "store (snd (saveMetadata ex_meta ?s1)) (metadataKey (threadOf ex_meta)) =
          Some (emptyRecord\<lparr>Metadata := msgMetadata ex_meta\<rparr>)"
    using b sv by (intro saveMetadata_kept) simp_all
  then have "store (res_state (Send ex_meta ''did:bob'' ''did:alice'' ?s1)) ''metadata_m-2'' =
          Some (emptyRecord\<lparr>Metadata := [(''key'', JStr ''value'')]\<rparr>)"
    using b sv by (simp add: Send_eq Let_def fillIfMissing_def metadataKey_def)
  with r show ?thesis by (simp add: emptyRecord_def)
qed

text \<open>
  Claim C6, amended. Once \<open>HandleInbound\<close> has filed the record of a message whose
  \<open>@id\<close> does not begin with \<open>metadata_\<close>, the record stays as filed through every
  sequence of Messenger operations, whatever the store and the dispatcher answer,
  in which no \<open>HandleInbound\<close> receives a message with the same \<open>@id\<close>.
\<close>

theorem record_kept:
  "\<not> prefix ''metadata_'' (msgID m) \<and>
   res_err (HandleInbound m myDID theirDID s) = None \<and>
   (\<forall>x\<in>set steps. \<not> isHandleInboundFor (msgID m) (snd x)) \<longrightarrow>
     store (run steps (res_state (HandleInbound m myDID theirDID s))) (msgID m) =
       store (res_state (HandleInbound m myDID theirDID s)) (msgID m) \<and>
     store (res_state (HandleInbound m myDID theirDID s)) (msgID m) =
       Some \<lparr>MyDID = myDID, TheirDID = theirDID, ThreadID = threadOf m,
             ParentThreadID = msgParentThreadID m, Metadata = []\<rparr>"
proof (intro impI conjI)
  assume a: "\<not> prefix ''metadata_'' (msgID m) \<and>
   res_err (HandleInbound m myDID theirDID s) = None \<and>
   (\<forall>x\<in>set steps. \<not> isHandleInboundFor (msgID m) (snd x))"
  then show "store (run steps (res_state (HandleInbound m myDID theirDID s))) (msgID m) =
       store (res_state (HandleInbound m myDID theirDID s)) (msgID m)"
    by (intro run_store_other) simp_all
  from a have "msgID m \<noteq> ''''" by (auto simp: HandleInbound_def)
  with a show "store (res_state (HandleInbound m myDID theirDID s)) (msgID m) =
       Some \<lparr>MyDID = myDID, TheirDID = theirDID, ThreadID = threadOf m,
             ParentThreadID = msgParentThreadID m, Metadata = []\<rparr>"
    by (intro HandleInbound_stored) simp_all
qed

theorem record_kept_witness:
  "\<not> prefix ''metadata_'' (msgID ex_inbound) \<and>
   res_err (HandleInbound ex_inbound ''did:bob'' ''did:alice'' ex_state) = None \<and>
   \<not> isHandleInboundFor (msgID ex_inbound) (OpHandleInbound ex_meta ''did:bob'' ''did:carol'') \<and>
   store (run [(ex_no_faults, OpReplyTo ''m-1'' ex_meta),
               ((None, Some ErrDataNotFound, None), OpSend ex_meta ''did:bob'' ''did:alice''),
               (ex_no_faults, OpHandleInbound ex_meta ''did:bob'' ''did:carol''),
               (ex_no_faults, OpReplyToNested ex_reply ex_opts)]
            (res_state (HandleInbound ex_inbound ''did:bob'' ''did:alice'' ex_state))) ''m-1'' =
     Some ex_record"
proof -
  have a: "msgID ex_meta = ''m-2''" by (simp add: msgID_def ex_meta_def)
  show ?thesis
    using record_kept [of ex_inbound "''did:bob''" "''did:alice''" ex_state
        "[(ex_no_faults, OpReplyTo ''m-1'' ex_meta),
          ((None, Some ErrDataNotFound, None), OpSend ex_meta ''did:bob'' ''did:alice''),
          (ex_no_faults, OpHandleInbound ex_meta ''did:bob'' ''did:carol''),
          (ex_no_faults, OpReplyToNested ex_reply ex_opts)]"]
      ex_created ex_inbound_plain a
    by (simp add: isHandleInboundFor_def ex_record_def)
qed

section \<open>Waiting for a public DID\<close>

lemma wrap64_id: "- (2 ^ 63) \<le> x \<Longrightarrow> x < 2 ^ 63 \<Longrightarrow> wrap64 x = x"
  by (simp add: wrap64_def)

lemma wrap64_range: "- (2 ^ 63) \<le> wrap64 x \<and> wrap64 x \<le> 2 ^ 63 - 1"
proof -
  have "0 \<le> (x + 2 ^ 63) mod (2 ^ 64 :: int)" by simp
  moreover have "(x + 2 ^ 63) mod (2 ^ 64 :: int) < 2 ^ 64" by simp
  ultimately show ?thesis unfolding wrap64_def by simp
qed

lemma resolveCalls_attempts: "resolveCalls (attempts did j) = j"
  by (induction j) (simp_all add: resolveCalls_def)

lemma resolveCalls_attempts_last: "resolveCalls (attempts did j @ [Resolve did]) = Suc j"
  by (induction j) (simp_all add: resolveCalls_def)

lemma resolveDID_loop_stop:
  "i \<le> m \<Longrightarrow> \<not> retried (r did n) \<Longrightarrow>
   resolveDID_loop r did m i n prev tr = Some (r did n, tr @ [Resolve did])"
  by (subst resolveDID_loop.simps) (simp add: retried_def Let_def split: option.splits)

lemma resolveDID_loop_retry:
  "i \<le> m \<Longrightarrow> retried (r did n) \<Longrightarrow>
   resolveDID_loop r did m i n prev tr =
   resolveDID_loop r did m (wrap64 (i + 1)) (Suc n) (r did n) (tr @ [Resolve did, Sleep 1])"
  by (subst resolveDID_loop.simps) (simp add: retried_def Let_def split: option.splits)

lemma resolveDID_loop_exit:
  "\<not> i \<le> m \<Longrightarrow> resolveDID_loop r did m i n prev tr = Some (prev, tr)"
  by (subst resolveDID_loop.simps) simp

lemma resolveDID_loop_runs:
  fixes m i :: int
  assumes "1 \<le> i" "i \<le> m + 1" "m < 2 ^ 63 - 1"
  shows "\<exists>j. j \<le> nat (m + 1 - i) \<and> (\<forall>l<j. retried (r did (n + l))) \<and>
           (if j < nat (m + 1 - i)
            then \<not> retried (r did (n + j)) \<and>
                 resolveDID_loop r did m i n prev tr = Some (r did (n + j), tr @ attempts did j @ [Resolve did])
            else resolveDID_loop r did m i n prev tr =
                   Some (if j = 0 then prev else r did (n + j - 1), tr @ attempts did j))"
  using assms
proof (induction "nat (m + 1 - i)" arbitrary: i n prev tr)
  case 0
  then have "\<not> i \<le> m" by simp
  then have "resolveDID_loop r did m i n prev tr = Some (prev, tr)"
    by (rule resolveDID_loop_exit)
  with 0 show ?case by (intro exI[of _ 0]) simp
next
  case (Suc k)
  then have im: "i \<le> m" by linarith
  show ?case
  proof (cases "retried (r did n)")
    case False
    with im have "resolveDID_loop r did m i n prev tr = Some (r did n, tr @ [Resolve did])"
      using resolveDID_loop_stop[of i m r did n prev tr] by simp
    with False Suc.hyps(2) show ?thesis by (intro exI[of _ 0]) simp
  next
    case True
    have w: "wrap64 (i + 1) = i + 1"
      using Suc.prems im by (intro wrap64_id) simp_all
    have step: "resolveDID_loop r did m i n prev tr =
        resolveDID_loop r did m (i + 1) (Suc n) (r did n) (tr @ [Resolve did, Sleep 1])"
      using resolveDID_loop_retry[of i m r did n prev tr] im True w by simp
    have k: "k = nat (m + 1 - (i + 1))" using Suc.hyps(2) by linarith
    have "1 \<le> i + 1" "i + 1 \<le> m + 1" using Suc.prems im by simp_all
    from Suc.hyps(1)[OF k this Suc.prems(3), of "Suc n" "r did n" "tr @ [Resolve did, Sleep 1]"]
    obtain j where j: "j \<le> k" "\<forall>l<j. retried (r did (Suc n + l))"
      "if j < k
       then \<not> retried (r did (Suc n + j)) \<and>
            resolveDID_loop r did m (i + 1) (Suc n) (r did n) (tr @ [Resolve did, Sleep 1]) =
              Some (r did (Suc n + j), (tr @ [Resolve did, Sleep 1]) @ attempts did j @ [Resolve did])
       else resolveDID_loop r did m (i + 1) (Suc n) (r did n) (tr @ [Resolve did, Sleep 1]) =
              Some (if j = 0 then r did n else r did (Suc n + j - 1), (tr @ [Resolve did, Sleep 1]) @ attempts did j)"
      using k by auto
    have all: "\<forall>l<Suc j. retried (r did (n + l))"
    proof (intro allI impI)
      fix l assume "l < Suc j"
      show "retried (r did (n + l))"
      proof (cases l)
        case 0 with True show ?thesis by simp
      next
        case (Suc l')
        with \<open>l < Suc j\<close> j(2) show ?thesis by simp
      qed
    qed
    have kk: "nat (m + 1 - i) = Suc k" using Suc.hyps(2) by simp
    show ?thesis
    proof (intro exI[of _ "Suc j"] conjI)
      show "Suc j \<le> nat (m + 1 - i)" using j(1) kk by simp
      show "\<forall>l<Suc j. retried (r did (n + l))" by (rule all)
      show "if Suc j < nat (m + 1 - i)
            then \<not> retried (r did (n + Suc j)) \<and>
                 resolveDID_loop r did m i n prev tr = Some (r did (n + Suc j), tr @ attempts did (Suc j) @ [Resolve did])
            else resolveDID_loop r did m i n prev tr =
                   Some (if Suc j = 0 then prev else r did (n + Suc j - 1), tr @ attempts did (Suc j))"
        using j(3) step kk by (cases "j = 0") (auto split: if_splits)
    qed
  qed
qed

lemma resolveDID_loop_forever:
  assumes "resolveDID_loop r did m i n prev tr = Some y"
  shows "(\<forall>k. retried (r did k)) \<longrightarrow> m = 2 ^ 63 - 1 \<longrightarrow> - (2 ^ 63) \<le> i \<and> i \<le> 2 ^ 63 - 1 \<longrightarrow> False"
proof (rule resolveDID_loop.raw_induct[where P =
    "\<lambda>r did m i n prev tr y. (\<forall>k. retried (r did k)) \<longrightarrow> m = 2 ^ 63 - 1 \<longrightarrow>
        - (2 ^ 63) \<le> i \<and> i \<le> 2 ^ 63 - 1 \<longrightarrow> False", OF _ assms], goal_cases)
  case (1 loop r did m i n prev tr y)
  show ?case
  proof (intro impI)
    assume a: "\<forall>k. retried (r did k)" "m = 2 ^ 63 - 1" "- (2 ^ 63) \<le> i \<and> i \<le> 2 ^ 63 - 1"
    then have "i \<le> m" by simp
    moreover from a obtain e where e: "snd (r did n) = Some e" "stringsContains e ''DID does not exist''"
      by (auto simp: retried_def split: option.splits)
    ultimately have "loop r did m (wrap64 (i + 1)) (Suc n) (r did n) ((tr @ [Resolve did]) @ [Sleep 1]) = Some y"
      using 1(2) by (simp add: Let_def)
    from 1(1)[OF this] a wrap64_range[of "i + 1"] show False by simp
  qed
qed

text \<open>
  Claim C8, as stated, fails at the largest \<open>int\<close>: the loop counter wraps around
  instead of passing \<open>maxRetry\<close>, so with a DID that never comes to exist
  \<open>resolveDID\<close> does not return, and the number of its calls of \<open>Resolve\<close> has no bound.
\<close>

theorem resolveDID_bounded_counterexample:
  "(1::int) \<le> 9223372036854775807 \<and>
   resolveDID ex_never ''did:example:alice'' 9223372036854775807 = None"
proof (cases "resolveDID ex_never ''did:example:alice'' 9223372036854775807")
  case None
  then show ?thesis by simp
next
  case (Some y)
  then show ?thesis
    using resolveDID_loop_forever [of ex_never "''did:example:alice''" 9223372036854775807 1 0
        "(None, None)" "[]" y]
    by (simp add: resolveDID_def retried_def stringsContains_def ex_never_def)
qed

text \<open>
  Claim C8, amended. For \<open>1 \<le> maxRetry < 2^63 - 1\<close>, \<open>resolveDID\<close> returns, having called
  \<open>Resolve\<close> at most \<open>maxRetry\<close> times. It returns right after the first attempt \<open>j\<close>
  that succeeds or fails with an error that does not say the DID does not exist, with
  that attempt's result; when there is none among the first \<open>maxRetry\<close> attempts it
  returns the result of the last of them. It sleeps one second after every attempt
  that it does not return from.
\<close>

theorem resolveDID_bounded:
  assumes "1 \<le> m" "m < 2 ^ 63 - 1"
  shows "\<exists>j res tr. resolveDID r did m = Some (res, tr) \<and> resolveCalls tr \<le> nat m \<and>
           j \<le> nat m \<and> (\<forall>l<j. retried (r did l)) \<and>
           (if j < nat m
            then \<not> retried (r did j) \<and> res = r did j \<and> tr = attempts did j @ [Resolve did]
            else res = r did (nat m - 1) \<and> tr = attempts did (nat m))"
proof -
  have "(1::int) \<le> 1" "1 \<le> m + 1" using assms by simp_all
  from resolveDID_loop_runs[OF this assms(2), of r did 0 "(None, None)" "[]"]
  obtain j where J: "j \<le> nat (m + 1 - 1) \<and> (\<forall>l<j. retried (r did (0 + l))) \<and>
           (if j < nat (m + 1 - 1)
            then \<not> retried (r did (0 + j)) \<and>
                 resolveDID_loop r did m 1 0 (None, None) [] = Some (r did (0 + j), [] @ attempts did j @ [Resolve did])
            else resolveDID_loop r did m 1 0 (None, None) [] =
                   Some (if j = 0 then (None, None) else r did (0 + j - 1), [] @ attempts did j))"
    by blast
  have j1: "j \<le> nat m" and j2: "\<forall>l<j. retried (r did l)" using J by simp_all
  show ?thesis
  proof (cases "j < nat m")
    case True
    with J have "\<not> retried (r did j)" "resolveDID r did m = Some (r did j, attempts did j @ [Resolve did])"
      by (simp_all add: resolveDID_def)
    with True j1 j2 show ?thesis
      by (intro exI[of _ j] exI[of _ "r did j"] exI[of _ "attempts did j @ [Resolve did]"])
         (simp add: resolveCalls_attempts_last)
  next
    case False
    with j1 have jm: "j = nat m" by simp
    with assms have j0: "j \<noteq> 0" by simp
    with J False have "resolveDID r did m = Some (r did (j - 1), attempts did j)"
      by (simp add: resolveDID_def)
    with False jm j2 show ?thesis
      by (intro exI[of _ j] exI[of _ "r did (nat m - 1)"] exI[of _ "attempts did (nat m)"])
         (simp add: resolveCalls_attempts)
  qed
qed

theorem resolveDID_bounded_witness:
  "(1::int) \<le> 10 \<and> (10::int) < 2 ^ 63 - 1 \<and>
   resolveDID ex_resolver ''did:example:alice'' 10 =
     Some ((Some ''doc'', None),
           [Resolve ''did:example:alice'', Sleep 1, Resolve ''did:example:alice'', Sleep 1,
            Resolve ''did:example:alice''])"
proof -
  let ?d = "''did:example:alice''"
  have c: "stringsContains ''resolve failed: DID does not exist'' ''DID does not exist''"
    unfolding stringsContains_def sublist_def
    by (intro exI[of _ "''resolve failed: ''"] exI[of _ "[]"]) simp
  have r: "\<And>l. retried (ex_resolver ?d l) \<longleftrightarrow> l < 2"
    using c by (simp add: retried_def ex_resolver_def)
  from resolveDID_bounded [of 10 ex_resolver ?d]
  obtain j res tr where t: "resolveDID ex_resolver ?d 10 = Some (res, tr)"
    "\<forall>l<j. retried (ex_resolver ?d l)"
    "if j < nat 10
     then \<not> retried (ex_resolver ?d j) \<and> res = ex_resolver ?d j \<and> tr = attempts ?d j @ [Resolve ?d]
     else res = ex_resolver ?d (nat 10 - 1) \<and> tr = attempts ?d (nat 10)"
    by auto
  have le: "j \<le> 2"
  proof (rule ccontr)
    assume "\<not> j \<le> 2"
    then have "2 < j" by simp
    with t(2) have "retried (ex_resolver ?d 2)" by blast
    with r show False by simp
  qed
  then have "j < nat 10" by simp
  with t(3) have n: "\<not> retried (ex_resolver ?d j)" "res = ex_resolver ?d j"
    "tr = attempts ?d j @ [Resolve ?d]"
    by simp_all
  from n(1) r le have "j = 2" by simp
  then have "j = Suc (Suc 0)" by simp
  with n t(1) show ?thesis by (simp add: ex_resolver_def)
qed

end
